theory Spec2Isabelle
  imports Complex_Main "HOL-Library.Sublist"
begin

section \<open>JavaScript values\<close>

text \<open>
  The request payloads of \<^verbatim>\<open>index.js\<close> are untyped JSON, and the handlers test them
  with truthiness, \<^verbatim>\<open><=\<close>, \<^verbatim>\<open>===\<close> and \<^verbatim>\<open>typeof\<close>. A value is therefore one of the
  JavaScript value kinds that JSON parsing or query-string parsing can produce, with
  \<open>JUndefined\<close> for a key that is absent after destructuring.

  A number is a finite value, an infinity or NaN. Every finite double is a rational, so
  \<open>Fin\<close> carries a \<open>rat\<close>; the type is larger than the doubles, which only makes the
  universally quantified theorems below stronger. Negative zero is identified with zero:
  no operation of the program tells them apart.

  A string is a list of 8-bit characters, read as the code units below 256.
\<close>

datatype jsnum = NaN | Fin rat | PosInf | NegInf

datatype jsval =
    JUndefined
  | JNull
  | JBool bool
  | JNum jsnum
  | JStr string
  | JArr "jsval list"
  | JObj "(string \<times> jsval) list"

text \<open>ToBoolean: what \<^verbatim>\<open>!v\<close>, \<^verbatim>\<open>if (v)\<close> and \<^verbatim>\<open>v && ...\<close> test.\<close>

fun truthy :: "jsval \<Rightarrow> bool" where
  "truthy JUndefined = False"
| "truthy JNull = False"
| "truthy (JBool b) = b"
| "truthy (JNum n) = (n \<noteq> NaN \<and> n \<noteq> Fin 0)"
| "truthy (JStr s) = (s \<noteq> [])"
| "truthy (JArr xs) = True"
| "truthy (JObj kvs) = True"

text \<open>
  ToPrimitive of an array or an object made by JSON parsing. Such a value has no callable
  property of its own, so the conversion goes through the inherited \<^verbatim>\<open>valueOf\<close>, which
  returns the object itself, and then through \<^verbatim>\<open>toString\<close>. An object with an own
  \<^verbatim>\<open>toString\<close> key (its value is never callable) has no primitive value: the conversion
  throws a TypeError. An array is joined, which converts each element that is not null
  to a string, and throws if one of them does.
\<close>

fun unconvertible :: "jsval \<Rightarrow> bool" where
  "unconvertible (JObj kvs) = (''toString'' \<in> set (map fst kvs))"
| "unconvertible (JArr xs) = list_ex unconvertible xs"
| "unconvertible v = False"

text \<open>
  ToNumber; \<open>None\<close> is the TypeError. An object that converts at all becomes the string
  \<^verbatim>\<open>[object Object]\<close> and so NaN. The number a string or a joined array stands for
  (StringToNumber) belongs to the language runtime and not to the repository; it is the
  parameter \<open>cv\<close>, and every theorem holds for every \<open>cv\<close>.
\<close>

fun ToNumber :: "(jsval \<Rightarrow> jsnum) \<Rightarrow> jsval \<Rightarrow> jsnum option" where
  "ToNumber cv JUndefined = Some NaN"
| "ToNumber cv JNull = Some (Fin 0)"
| "ToNumber cv (JBool b) = Some (Fin (if b then 1 else 0))"
| "ToNumber cv (JNum n) = Some n"
| "ToNumber cv (JStr s) = Some (cv (JStr s))"
| "ToNumber cv (JArr xs) = (if unconvertible (JArr xs) then None else Some (cv (JArr xs)))"
| "ToNumber cv (JObj kvs) = (if unconvertible (JObj kvs) then None else Some NaN)"

text \<open>Comparison of numbers: any comparison with NaN is false.\<close>

fun num_le :: "jsnum \<Rightarrow> jsnum \<Rightarrow> bool" where
  "num_le NaN y = False"
| "num_le x NaN = False"
| "num_le NegInf y = True"
| "num_le x PosInf = True"
| "num_le (Fin a) (Fin b) = (a \<le> b)"
| "num_le PosInf y = False"
| "num_le (Fin a) NegInf = False"

fun num_lt :: "jsnum \<Rightarrow> jsnum \<Rightarrow> bool" where
  "num_lt NaN y = False"
| "num_lt x NaN = False"
| "num_lt (Fin a) (Fin b) = (a < b)"
| "num_lt NegInf NegInf = False"
| "num_lt NegInf y = True"
| "num_lt PosInf y = False"
| "num_lt (Fin a) PosInf = True"
| "num_lt (Fin a) NegInf = False"

text \<open>
  \<^verbatim>\<open>v <= n\<close> and \<^verbatim>\<open>v > n\<close> with a Number on the right: the left operand is converted
  with ToNumber and the numbers are compared. The comparison throws when the conversion
  does: the result is \<open>None\<close>.
\<close>

definition js_le :: "(jsval \<Rightarrow> jsnum) \<Rightarrow> jsval \<Rightarrow> rat \<Rightarrow> bool option" where
  "js_le cv v n = (case ToNumber cv v of None \<Rightarrow> None | Some x \<Rightarrow> Some (num_le x (Fin n)))"

definition js_gt :: "(jsval \<Rightarrow> jsnum) \<Rightarrow> jsval \<Rightarrow> rat \<Rightarrow> bool option" where
  "js_gt cv v n = (case ToNumber cv v of None \<Rightarrow> None | Some x \<Rightarrow> Some (num_lt (Fin n) x))"

subsection \<open>Strings\<close>

text \<open>\<^verbatim>\<open>String.prototype.toLowerCase\<close> on code units below 256: A to Z, and the
  Latin-1 capitals U+00C0 to U+00DE except the multiplication sign U+00D7.\<close>

definition lower_char :: "char \<Rightarrow> char" where
  "lower_char c =
     (let n = (of_char c :: nat)
      in if (65 \<le> n \<and> n \<le> 90) \<or> (192 \<le> n \<and> n \<le> 222 \<and> n \<noteq> 215)
         then char_of (n + 32) else c)"

definition toLowerCase :: "string \<Rightarrow> string" where
  "toLowerCase s = map lower_char s"

text \<open>\<^verbatim>\<open>s.includes(t)\<close>: \<open>t\<close> occurs in \<open>s\<close> as a contiguous substring.\<close>

fun includes_str :: "string \<Rightarrow> string \<Rightarrow> bool" where
  "includes_str [] t = (t = [])"
| "includes_str (c # s) t = (prefix t (c # s) \<or> includes_str s t)"

subsection \<open>parseInt\<close>

text \<open>
  \<^verbatim>\<open>parseInt(string)\<close> with no radix argument, as ECMAScript defines it: leading white
  space is skipped, one sign is read, a \<^verbatim>\<open>0x\<close> or \<^verbatim>\<open>0X\<close> prefix selects radix 16 (radix 10
  otherwise), and the longest prefix of digits of that radix is the value. With no such
  digit the result is NaN, here \<open>None\<close>. The result is the mathematical integer: the
  rounding of integers of magnitude above \<open>2^53\<close> to a double is not modelled.
\<close>

definition is_ws :: "char \<Rightarrow> bool" where
  "is_ws c = ((of_char c :: nat) \<in> {9, 10, 11, 12, 13, 32, 160})"

definition digit_val :: "char \<Rightarrow> nat option" where
  "digit_val c =
     (let n = (of_char c :: nat)
      in if 48 \<le> n \<and> n \<le> 57 then Some (n - 48)
         else if 97 \<le> n \<and> n \<le> 122 then Some (n - 87)
         else if 65 \<le> n \<and> n \<le> 90 then Some (n - 55)
         else None)"

definition radix_digit :: "nat \<Rightarrow> char \<Rightarrow> bool" where
  "radix_digit r c = (case digit_val c of None \<Rightarrow> False | Some d \<Rightarrow> d < r)"

definition digits_value :: "nat \<Rightarrow> string \<Rightarrow> nat" where
  "digits_value r z = foldl (\<lambda>a c. a * r + (case digit_val c of None \<Rightarrow> 0 | Some d \<Rightarrow> d)) 0 z"

fun strip_sign :: "string \<Rightarrow> bool \<times> string" where
  "strip_sign [] = (False, [])"
| "strip_sign (c # s) =
     (if c = CHR ''-'' then (True, s) else if c = CHR ''+'' then (False, s) else (False, c # s))"

fun strip_radix :: "string \<Rightarrow> nat \<times> string" where
  "strip_radix (a # b # s) =
     (if a = CHR ''0'' \<and> (b = CHR ''x'' \<or> b = CHR ''X'') then (16, s) else (10, a # b # s))"
| "strip_radix s = (10, s)"

definition parseInt :: "string \<Rightarrow> int option" where
  "parseInt inputString =
     (let (neg, s) = strip_sign (dropWhile is_ws inputString);
          (r, s') = strip_radix s;
          z = takeWhile (radix_digit r) s'
      in if z = [] then None
         else Some ((if neg then - 1 else 1) * int (digits_value r z)))"

text \<open>\<^verbatim>\<open>b.id === id\<close>: the stored id is an integer, the parsed one may be NaN, which is
  equal to nothing.\<close>

definition strict_eq_id :: "int \<Rightarrow> int option \<Rightarrow> bool" where
  "strict_eq_id i parsed = (parsed = Some i)"

section \<open>The registry\<close>

text \<open>
  A book as the objects of the \<^verbatim>\<open>books\<close> array are. The id is always an integer (a seed
  id or \<^verbatim>\<open>Math.max(...) + 1\<close>), taken as a mathematical integer: the ids the program
  can assign stay far below \<open>2^53\<close>, where doubles are exact on integers. The other fields
  hold whatever the payload held. \<open>createdAt\<close> is a Date, as milliseconds since the epoch.
\<close>

record book =
  book_id :: int
  title :: jsval
  author :: jsval
  year :: jsval
  completed :: jsval
  createdAt :: int

definition books_init :: "book list" where
  "books_init =
     [\<lparr>book_id = 1, title = JStr ''The Begining After The End'', author = JStr ''James Vladimir'',
       year = JNum (Fin 2018), completed = JBool False, createdAt = 1736899200000\<rparr>,
      \<lparr>book_id = 2, title = JStr ''Clean Code'', author = JStr ''Khine Akira'',
       year = JNum (Fin 2008), completed = JBool True, createdAt = 1708387200000\<rparr>,
      \<lparr>book_id = 3, title = JStr ''Saga of Tanya the Evil'', author = JStr ''Saori Metsubayashi'',
       year = JNum (Fin 2008), completed = JBool True, createdAt = 1708387200000\<rparr>]"

text \<open>\<^verbatim>\<open>Array.prototype.findIndex\<close>; \<open>None\<close> is the result \<^verbatim>\<open>-1\<close>.\<close>

fun findIndex :: "('a \<Rightarrow> bool) \<Rightarrow> 'a list \<Rightarrow> nat option" where
  "findIndex P [] = None"
| "findIndex P (x # xs) = (if P x then Some 0 else map_option Suc (findIndex P xs))"

text \<open>\<^verbatim>\<open>books.splice(i, 1)\<close>.\<close>

definition splice1 :: "nat \<Rightarrow> 'a list \<Rightarrow> 'a list" where
  "splice1 i xs = take i xs @ drop (Suc i) xs"

text \<open>\<^verbatim>\<open>books.length > 0 ? Math.max(...books.map(b => b.id)) + 1 : 1\<close>.\<close>

definition newId :: "book list \<Rightarrow> int" where
  "newId books = (case map book_id books of [] \<Rightarrow> 1 | i # is \<Rightarrow> fold max is i + 1)"

section \<open>Requests and responses\<close>

text \<open>
  A request after \<^verbatim>\<open>express.json()\<close> and the query parser: the HTTP verb, the decoded path
  segments, \<^verbatim>\<open>req.params.id\<close> (set by the router), \<^verbatim>\<open>req.query.title\<close> and the four
  keys the handlers destructure from \<^verbatim>\<open>req.body\<close>. The requests of the model are those
  whose \<^verbatim>\<open>req.body\<close> is an object (the parsed JSON body, or the empty object that the
  middleware of Express 4 leaves when there is none); a key it does not have is
  \<open>JUndefined\<close>. A request whose body is not valid JSON is answered by the middleware
  and reaches no handler. \<open>OTHER\<close> is any verb the program registers no route for.
\<close>

datatype http_method = GET | POST | PUT | DELETE | OTHER

record request =
  req_method :: http_method
  path :: "string list"
  params_id :: "string option"
  query_title :: jsval
  body_title :: jsval
  body_author :: jsval
  body_year :: jsval
  body_completed :: jsval

datatype resp_data = NoData | OneBook book | ManyBooks "book list"

record response =
  status :: nat
  success :: bool
  data :: resp_data
  message :: "string option"

text \<open>
  What a request ends in: a JSON response of a handler, an exception thrown by a handler
  (Express answers 500), or no matching route (Express answers its own 404).
\<close>

datatype outcome = Json response | Thrown | NoRoute

definition not_found :: response where
  "not_found = \<lparr>status = 404, success = False, data = NoData, message = Some ''Book not found''\<rparr>"

definition bad_request :: "string \<Rightarrow> response" where
  "bad_request m = \<lparr>status = 400, success = False, data = NoData, message = Some m\<rparr>"

definition parse_id :: "request \<Rightarrow> int option" where
  "parse_id req = (case params_id req of None \<Rightarrow> None | Some s \<Rightarrow> parseInt s)"

section \<open>The handlers\<close>

text \<open>
  Each handler takes the request and the registry and returns what the request ends in
  and the registry it leaves. In the create and update handlers the comparison
  \<^verbatim>\<open>year <= 1900\<close> can throw; it stands before every write, so the exception leaves the
  registry as it was.
\<close>

definition get_books :: "request \<Rightarrow> book list \<Rightarrow> outcome \<times> book list" where
  "get_books req books =
     (Json \<lparr>status = 200, success = True, data = ManyBooks books, message = None\<rparr>, books)"

definition get_book :: "request \<Rightarrow> book list \<Rightarrow> outcome \<times> book list" where
  "get_book req books =
     (let id = parse_id req
      in case find (\<lambda>b. strict_eq_id (book_id b) id) books of
           None \<Rightarrow> (Json not_found, books)
         | Some b \<Rightarrow>
             (Json \<lparr>status = 200, success = True, data = OneBook b, message = None\<rparr>, books))"

definition post_book ::
  "(jsval \<Rightarrow> jsnum) \<Rightarrow> int \<Rightarrow> request \<Rightarrow> book list \<Rightarrow> outcome \<times> book list" where
  "post_book cv now req books =
     (let t = body_title req; a = body_author req; y = body_year req
      in if \<not> truthy t \<or> \<not> truthy a \<or> \<not> truthy y
         then (Json (bad_request ''All fields (title, author, year) are required''), books)
         else case js_le cv y 1900 of
                None \<Rightarrow> (Thrown, books)
              | Some le \<Rightarrow>
                  if le
                  then (Json (bad_request ''Year must be greater than 1900''), books)
                  else
                    (let newBook = \<lparr>book_id = newId books, title = t, author = a, year = y,
                                    completed = JBool False, createdAt = now\<rparr>
                     in (Json \<lparr>status = 201, success = True, data = OneBook newBook,
                               message = None\<rparr>,
                         books @ [newBook])))"

definition put_book ::
  "(jsval \<Rightarrow> jsnum) \<Rightarrow> request \<Rightarrow> book list \<Rightarrow> outcome \<times> book list" where
  "put_book cv req books =
     (let id = parse_id req
      in case findIndex (\<lambda>b. strict_eq_id (book_id b) id) books of
           None \<Rightarrow> (Json not_found, books)
         | Some bookIndex \<Rightarrow>
             (let t = body_title req; a = body_author req; y = body_year req;
                  c = body_completed req
              in case (if truthy y then js_le cv y 1900 else Some False) of
                   None \<Rightarrow> (Thrown, books)
                 | Some le \<Rightarrow>
                 if le
                 then (Json (bad_request ''Year must be greater than 1900''), books)
                 else
                   (let books1 = (if truthy t
                                  then books[bookIndex := (books ! bookIndex)\<lparr>title := t\<rparr>]
                                  else books);
                        books2 = (if truthy a
                                  then books1[bookIndex := (books1 ! bookIndex)\<lparr>author := a\<rparr>]
                                  else books1);
                        books3 = (if truthy y
                                  then books2[bookIndex := (books2 ! bookIndex)\<lparr>year := y\<rparr>]
                                  else books2);
                        books4 = (if c \<noteq> JUndefined
                                  then books3[bookIndex := (books3 ! bookIndex)\<lparr>completed := c\<rparr>]
                                  else books3)
                    in (Json \<lparr>status = 200, success = True, data = OneBook (books4 ! bookIndex),
                              message = Some ''Book updated successfully''\<rparr>,
                        books4))))"

definition delete_book :: "request \<Rightarrow> book list \<Rightarrow> outcome \<times> book list" where
  "delete_book req books =
     (let id = parse_id req
      in case findIndex (\<lambda>b. strict_eq_id (book_id b) id) books of
           None \<Rightarrow> (Json not_found, books)
         | Some bookIndex \<Rightarrow>
             (Json \<lparr>status = 200, success = True, data = NoData,
                    message = Some ''Book deleted successfully''\<rparr>,
              splice1 bookIndex books))"

definition completedBooks :: "book list \<Rightarrow> book list" where
  "completedBooks books = filter (\<lambda>b. completed b = JBool True) books"

definition get_completed :: "request \<Rightarrow> book list \<Rightarrow> outcome \<times> book list" where
  "get_completed req books =
     (Json \<lparr>status = 200, success = True, data = ManyBooks (completedBooks books),
            message = None\<rparr>, books)"

text \<open>
  \<^verbatim>\<open>v.toLowerCase()\<close> exists on strings only: on any other value the call throws a
  TypeError. \<^verbatim>\<open>filter\<close> calls it on the title of every book, in order, so one title that
  is not a string makes the whole handler throw.
\<close>

fun lower_of :: "jsval \<Rightarrow> string option" where
  "lower_of (JStr s) = Some (toLowerCase s)"
| "lower_of v = None"

definition title_matches :: "string \<Rightarrow> book \<Rightarrow> bool" where
  "title_matches searchTerm b =
     (case lower_of (title b) of None \<Rightarrow> False | Some s \<Rightarrow> includes_str s searchTerm)"

definition get_search :: "request \<Rightarrow> book list \<Rightarrow> outcome \<times> book list" where
  "get_search req books =
     (let t = query_title req
      in if \<not> truthy t
         then (Json (bad_request ''Title query parameter is required''), books)
         else case lower_of t of
                None \<Rightarrow> (Thrown, books)
              | Some searchTerm \<Rightarrow>
                  if list_all (\<lambda>b. lower_of (title b) \<noteq> None) books
                  then (Json \<lparr>status = 200, success = True,
                              data = ManyBooks (filter (title_matches searchTerm) books),
                              message = None\<rparr>, books)
                  else (Thrown, books))"

section \<open>The router\<close>

text \<open>
  Express tries the routes in the order of their registration and runs the first whose
  verb and path pattern match; no handler of the program passes the request on. A
  literal segment matches without regard to ASCII case (the default of Express), a
  parameter segment matches any non-empty segment and is bound to \<^verbatim>\<open>req.params.id\<close>.
\<close>

datatype seg = Lit string | Param

datatype handler =
  GetBooks | GetBook | PostBook | PutBook | DeleteBook | GetCompleted | GetSearch

definition routes :: "(http_method \<times> seg list \<times> handler) list" where
  "routes =
     [(GET, [Lit ''books''], GetBooks),
      (GET, [Lit ''books'', Param], GetBook),
      (POST, [Lit ''books''], PostBook),
      (PUT, [Lit ''books'', Param], PutBook),
      (DELETE, [Lit ''books'', Param], DeleteBook),
      (GET, [Lit ''books'', Lit ''completed''], GetCompleted),
      (GET, [Lit ''books'', Lit ''search''], GetSearch)]"

fun match_path :: "seg list \<Rightarrow> string list \<Rightarrow> string option option" where
  "match_path [] [] = Some None"
| "match_path (Lit l # ps) (s # ss) =
     (if toLowerCase s = toLowerCase l then match_path ps ss else None)"
| "match_path (Param # ps) (s # ss) =
     (if s = [] then None
      else case match_path ps ss of None \<Rightarrow> None | Some r \<Rightarrow> Some (Some s))"
| "match_path ps ss = None"

fun lookup_route ::
  "(http_method \<times> seg list \<times> handler) list \<Rightarrow> http_method \<Rightarrow> string list \<Rightarrow>
   (handler \<times> string option) option" where
  "lookup_route [] m p = None"
| "lookup_route ((m', pat, h) # rs) m p =
     (if m' = m
      then (case match_path pat p of
              Some param \<Rightarrow> Some (h, param)
            | None \<Rightarrow> lookup_route rs m p)
      else lookup_route rs m p)"

fun run_handler ::
  "(jsval \<Rightarrow> jsnum) \<Rightarrow> int \<Rightarrow> handler \<Rightarrow> request \<Rightarrow> book list \<Rightarrow> outcome \<times> book list" where
  "run_handler cv now GetBooks req books = get_books req books"
| "run_handler cv now GetBook req books = get_book req books"
| "run_handler cv now PostBook req books = post_book cv now req books"
| "run_handler cv now PutBook req books = put_book cv req books"
| "run_handler cv now DeleteBook req books = delete_book req books"
| "run_handler cv now GetCompleted req books = get_completed req books"
| "run_handler cv now GetSearch req books = get_search req books"

definition dispatch ::
  "(jsval \<Rightarrow> jsnum) \<Rightarrow> int \<Rightarrow> request \<Rightarrow> book list \<Rightarrow> outcome \<times> book list" where
  "dispatch cv now req books =
     (case lookup_route routes (req_method req) (path req) of
        None \<Rightarrow> (NoRoute, books)
      | Some (h, param) \<Rightarrow> run_handler cv now h (req\<lparr>params_id := param\<rparr>) books)"

text \<open>The registries the running program can hold: the seed, and what any request leaves.\<close>

inductive reachable :: "book list \<Rightarrow> bool" where
  init: "reachable books_init"
| step: "reachable books \<Longrightarrow> reachable (snd (dispatch cv now req books))"

text \<open>A request with no body and no query string, from which concrete requests are built.\<close>

definition blank_request :: request where
  "blank_request =
     \<lparr>req_method = GET, path = [], params_id = None, query_title = JUndefined,
      body_title = JUndefined, body_author = JUndefined, body_year = JUndefined,
      body_completed = JUndefined\<rparr>"

section \<open>Routing\<close>

lemma lower_books [simp]: "toLowerCase ''books'' = ''books''"
  by (simp add: toLowerCase_def lower_char_def)

lemma route_get_id:
  "s \<noteq> [] \<Longrightarrow> lookup_route routes GET [''books'', s] = Some (GetBook, Some s)"
  by (simp add: routes_def)

lemma route_put_id:
  "s \<noteq> [] \<Longrightarrow> lookup_route routes PUT [''books'', s] = Some (PutBook, Some s)"
  by (simp add: routes_def)

lemma route_delete_id:
  "s \<noteq> [] \<Longrightarrow> lookup_route routes DELETE [''books'', s] = Some (DeleteBook, Some s)"
  by (simp add: routes_def)

lemma route_post: "lookup_route routes POST [''books''] = Some (PostBook, None)"
  by (simp add: routes_def)

lemma dispatch_post:
  "req_method req = POST \<Longrightarrow> path req = [''books''] \<Longrightarrow>
   dispatch cv now req books = post_book cv now (req\<lparr>params_id := None\<rparr>) books"
  by (simp add: dispatch_def route_post)

lemma dispatch_put:
  "req_method req = PUT \<Longrightarrow> path req = [''books'', s] \<Longrightarrow> s \<noteq> [] \<Longrightarrow>
   dispatch cv now req books = put_book cv (req\<lparr>params_id := Some s\<rparr>) books"
  by (simp add: dispatch_def route_put_id)

lemma dispatch_delete:
  "req_method req = DELETE \<Longrightarrow> path req = [''books'', s] \<Longrightarrow> s \<noteq> [] \<Longrightarrow>
   dispatch cv now req books = delete_book (req\<lparr>params_id := Some s\<rparr>) books"
  by (simp add: dispatch_def route_delete_id)

lemma dispatch_get:
  "req_method req = GET \<Longrightarrow> path req = [''books'', s] \<Longrightarrow> s \<noteq> [] \<Longrightarrow>
   dispatch cv now req books = get_book (req\<lparr>params_id := Some s\<rparr>) books"
  by (simp add: dispatch_def route_get_id)

text \<open>A path that a two-literal pattern matches is matched by the parameter pattern too.\<close>

lemma match_lit2:
  "match_path [Lit a, Lit b] p = Some x \<Longrightarrow> toLowerCase b \<noteq> [] \<Longrightarrow>
   match_path [Lit a, Param] p \<noteq> None"
  apply (cases p; simp)
  subgoal for s ss
    apply (cases ss; simp split: if_splits)
    subgoal for t ts
      by (cases ts; auto simp: toLowerCase_def split: if_splits)
    done
  done

text \<open>
  No request at all reaches the handlers registered for \<^verbatim>\<open>/books/completed\<close> and
  \<^verbatim>\<open>/books/search\<close>: \<^verbatim>\<open>/books/:id\<close> is registered before them and matches every
  path they match.
\<close>

lemma literal_routes_shadowed:
  "lookup_route routes m p \<noteq> Some (GetCompleted, x) \<and>
   lookup_route routes m p \<noteq> Some (GetSearch, x)"
proof -
  have c: "toLowerCase ''completed'' \<noteq> []" and s: "toLowerCase ''search'' \<noteq> []"
    by (simp_all add: toLowerCase_def)
  show ?thesis
    using match_lit2 [of "''books''" "''completed''" p, OF _ c]
      match_lit2 [of "''books''" "''search''" p, OF _ s]
    by (auto simp: routes_def split: if_splits option.splits)
qed

lemma route_handler_method:
  "lookup_route routes m p = Some (h, x) \<Longrightarrow>
     (h = GetBooks \<or> h = GetBook \<longrightarrow> m = GET) \<and> (h = PostBook \<longleftrightarrow> m = POST) \<and>
     (h = PutBook \<longleftrightarrow> m = PUT) \<and> (h = DeleteBook \<longleftrightarrow> m = DELETE)"
  by (auto simp: routes_def split: if_splits option.splits)

section \<open>Array searches and the next id\<close>

lemma findIndex_None: "findIndex P xs = None \<longleftrightarrow> (\<forall>x\<in>set xs. \<not> P x)"
  by (induction xs) auto

lemma findIndex_SomeD:
  "findIndex P xs = Some i \<Longrightarrow> i < length xs \<and> P (xs ! i) \<and> (\<forall>j<i. \<not> P (xs ! j))"
proof (induction xs arbitrary: i)
  case Nil
  then show ?case by simp
next
  case (Cons x xs)
  show ?case
  proof (cases "P x")
    case True
    with Cons.prems show ?thesis by simp
  next
    case False
    with Cons.prems obtain k where k: "findIndex P xs = Some k" "i = Suc k"
      by auto
    from Cons.IH [OF k(1)] False k(2) show ?thesis
      by (auto simp: nth_Cons split: nat.splits)
  qed
qed

lemma findIndex_first:
  "i < length xs \<Longrightarrow> P (xs ! i) \<Longrightarrow> \<forall>j<i. \<not> P (xs ! j) \<Longrightarrow> findIndex P xs = Some i"
proof (induction xs arbitrary: i)
  case Nil
  then show ?case by simp
next
  case (Cons x xs)
  show ?case
  proof (cases i)
    case 0
    with Cons.prems show ?thesis by simp
  next
    case (Suc k)
    from Cons.prems(3) Suc have nx: "\<not> P x" by force
    have "findIndex P xs = Some k"
    proof (rule Cons.IH)
      show "k < length xs" using Cons.prems(1) Suc by simp
      show "P (xs ! k)" using Cons.prems(2) Suc by simp
      show "\<forall>j<k. \<not> P (xs ! j)"
      proof (intro allI impI)
        fix j assume "j < k"
        then have "Suc j < i" using Suc by simp
        with Cons.prems(3) have "\<not> P ((x # xs) ! Suc j)" by blast
        then show "\<not> P (xs ! j)" by simp
      qed
    qed
    with nx Suc show ?thesis by simp
  qed
qed

lemma find_findIndex:
  "find P xs = (case findIndex P xs of None \<Rightarrow> None | Some i \<Rightarrow> Some (xs ! i))"
  by (induction xs) (auto split: option.splits)

lemma newId_Max: "newId books = (if books = [] then 1 else Max (book_id ` set books) + 1)"
proof (cases books)
  case Nil
  then show ?thesis by (simp add: newId_def)
next
  case (Cons b bs)
  have "fold max (map book_id bs) (book_id b) = Max (set (book_id b # map book_id bs))"
    by (simp only: Max.set_eq_fold)
  with Cons show ?thesis by (simp add: newId_def)
qed

lemma num_lt_not_le: "num_lt a b \<Longrightarrow> \<not> num_le b a"
  by (cases a; cases b) auto

lemma js_gt_not_le: "js_gt cv v n = Some True \<Longrightarrow> js_le cv v n = Some False"
  by (auto simp: js_gt_def js_le_def num_lt_not_le split: option.splits)

section \<open>The literal routes\<close>

text \<open>
  What the handler registered for \<^verbatim>\<open>/books/completed\<close> computes when it is called: the
  books whose \<open>completed\<close> is the boolean true, in registry order, with status 200.
\<close>

lemma get_completed_result:
  "get_completed req books =
     (Json \<lparr>status = 200, success = True,
            data = ManyBooks (filter (\<lambda>b. completed b = JBool True) books), message = None\<rparr>,
      books)"
  by (simp add: get_completed_def completedBooks_def)

text \<open>
  C1 (GET /books/completed returns the completed books, and is not misrouted to the
  get-by-id handler). The code does not do this. On the seed registry the request
  \<^verbatim>\<open>GET /books/completed\<close> is routed to the get-by-id handler with \<^verbatim>\<open>id = "completed"\<close>,
  which parses to NaN, and the answer is 404 "Book not found"; the completed-list
  handler, had it been called, would have returned the seed books 2 and 3.
\<close>

theorem C1_completed_is_misrouted:
  "lookup_route routes GET [''books'', ''completed''] = Some (GetBook, Some ''completed'') \<and>
   dispatch cv now (blank_request\<lparr>req_method := GET, path := [''books'', ''completed'']\<rparr>) books_init =
     (Json \<lparr>status = 404, success = False, data = NoData, message = Some ''Book not found''\<rparr>,
      books_init) \<and>
   fst (get_completed (blank_request\<lparr>req_method := GET, path := [''books'', ''completed'']\<rparr>)
          books_init) =
     Json \<lparr>status = 200, success = True,
           data = ManyBooks [books_init ! 1, books_init ! 2], message = None\<rparr>"
  by (simp add: dispatch_def route_get_id get_book_def parse_id_def parseInt_def is_ws_def
      radix_digit_def digit_val_def strict_eq_id_def not_found_def books_init_def
      blank_request_def get_completed_def completedBooks_def)

text \<open>
  C2 (GET /books/search answers 400 without a title and 200 with the matching books
  otherwise, and is not misrouted). The code does not do this, for the same reason as in
  C1: on the seed registry \<^verbatim>\<open>GET /books/search?title=clean\<close> and \<^verbatim>\<open>GET /books/search\<close>
  are both answered by the get-by-id handler with 404 "Book not found", where the search
  handler would have answered 200 with "Clean Code" and 400.
\<close>

theorem C2_search_is_misrouted:
  "lookup_route routes GET [''books'', ''search''] = Some (GetBook, Some ''search'') \<and>
   dispatch cv now
     (blank_request\<lparr>req_method := GET, path := [''books'', ''search''], query_title := JStr ''clean''\<rparr>)
     books_init =
     (Json \<lparr>status = 404, success = False, data = NoData, message = Some ''Book not found''\<rparr>,
      books_init) \<and>
   dispatch cv now (blank_request\<lparr>req_method := GET, path := [''books'', ''search'']\<rparr>) books_init =
     (Json \<lparr>status = 404, success = False, data = NoData, message = Some ''Book not found''\<rparr>,
      books_init) \<and>
   fst (get_search
          (blank_request\<lparr>req_method := GET, path := [''books'', ''search''],
             query_title := JStr ''clean''\<rparr>) books_init) =
     Json \<lparr>status = 200, success = True, data = ManyBooks [books_init ! 1], message = None\<rparr> \<and>
   fst (get_search (blank_request\<lparr>req_method := GET, path := [''books'', ''search'']\<rparr>) books_init) =
     Json \<lparr>status = 400, success = False, data = NoData,
           message = Some ''Title query parameter is required''\<rparr>"
  by (simp add: dispatch_def route_get_id get_book_def parse_id_def parseInt_def is_ws_def
      radix_digit_def digit_val_def strict_eq_id_def not_found_def books_init_def
      blank_request_def get_search_def title_matches_def toLowerCase_def lower_char_def
      bad_request_def char_of_def bit_0)

section \<open>Create\<close>

text \<open>
  C3. A create request (POST /books) with truthy title, author and year and
  \<^verbatim>\<open>year > 1900\<close> is answered with status 201 and the new book as data; the new book has
  id (maximum id in the registry) + 1, or 1 when the registry is empty, the payload's
  title, author and year, \<open>completed = false\<close> and \<open>createdAt\<close> the current time; and the
  registry afterwards is the old registry with the new book appended.
\<close>

theorem C3_create_success:
  assumes "req_method req = POST" and "path req = [''books'']"
    and "truthy (body_title req)" and "truthy (body_author req)" and "truthy (body_year req)"
    and "js_gt cv (body_year req) 1900 = Some True"
  shows "dispatch cv now req books =
           (Json \<lparr>status = 201, success = True,
                  data = OneBook
                    \<lparr>book_id = (if books = [] then 1 else Max (book_id ` set books) + 1),
                     title = body_title req, author = body_author req, year = body_year req,
                     completed = JBool False, createdAt = now\<rparr>,
                  message = None\<rparr>,
            books @
              [\<lparr>book_id = (if books = [] then 1 else Max (book_id ` set books) + 1),
                title = body_title req, author = body_author req, year = body_year req,
                completed = JBool False, createdAt = now\<rparr>])"
  using assms js_gt_not_le [OF assms(6)]
  by (simp add: dispatch_post post_book_def newId_Max Let_def)

theorem C3_create_success_witness:
  "dispatch (\<lambda>v. NaN) 1767225600000
     (blank_request\<lparr>req_method := POST, path := [''books''], body_title := JStr ''X'',
        body_author := JStr ''Y'', body_year := JNum (Fin 2000)\<rparr>) books_init =
    (Json \<lparr>status = 201, success = True,
           data = OneBook \<lparr>book_id = 4, title = JStr ''X'', author = JStr ''Y'',
                           year = JNum (Fin 2000), completed = JBool False,
                           createdAt = 1767225600000\<rparr>,
           message = None\<rparr>,
     books_init @
       [\<lparr>book_id = 4, title = JStr ''X'', author = JStr ''Y'', year = JNum (Fin 2000),
         completed = JBool False, createdAt = 1767225600000\<rparr>])"
  using C3_create_success
    [of "blank_request\<lparr>req_method := POST, path := [''books''], body_title := JStr ''X'',
           body_author := JStr ''Y'', body_year := JNum (Fin 2000)\<rparr>"
        "\<lambda>v. NaN" 1767225600000 books_init]
  by (simp add: blank_request_def js_gt_def books_init_def)

text \<open>
  C4. A create request is validated in this order: if one of title, author, year is
  missing or falsy, the answer is 400 "All fields (title, author, year) are required";
  otherwise, if \<^verbatim>\<open>year <= 1900\<close>, the answer is 400 "Year must be greater than 1900";
  a book is created only when both checks pass, and then it is. Year 1900 fails and year
  1901 succeeds. A rejected request leaves the registry as it was, and so does a request
  whose year has no primitive value, where the comparison throws.
\<close>

theorem C4_create_validation:
  assumes "req_method req = POST" and "path req = [''books'']"
  shows "(\<not> truthy (body_title req) \<or> \<not> truthy (body_author req) \<or> \<not> truthy (body_year req) \<longrightarrow>
            dispatch cv now req books =
              (Json \<lparr>status = 400, success = False, data = NoData,
                     message = Some ''All fields (title, author, year) are required''\<rparr>, books)) \<and>
         (truthy (body_title req) \<and> truthy (body_author req) \<and> truthy (body_year req) \<and>
          js_le cv (body_year req) 1900 = Some True \<longrightarrow>
            dispatch cv now req books =
              (Json \<lparr>status = 400, success = False, data = NoData,
                     message = Some ''Year must be greater than 1900''\<rparr>, books)) \<and>
         (truthy (body_title req) \<and> truthy (body_author req) \<and> truthy (body_year req) \<and>
          js_le cv (body_year req) 1900 = Some False \<longrightarrow>
            (\<exists>b. dispatch cv now req books =
               (Json \<lparr>status = 201, success = True, data = OneBook b, message = None\<rparr>,
                books @ [b]))) \<and>
         (truthy (body_title req) \<and> truthy (body_author req) \<and> truthy (body_year req) \<and>
          js_le cv (body_year req) 1900 = None \<longrightarrow>
            dispatch cv now req books = (Thrown, books)) \<and>
         (snd (dispatch cv now req books) \<noteq> books \<longrightarrow>
            truthy (body_title req) \<and> truthy (body_author req) \<and> truthy (body_year req) \<and>
            js_le cv (body_year req) 1900 = Some False) \<and>
         (truthy (body_title req) \<and> truthy (body_author req) \<and>
          body_year req = JNum (Fin 1900) \<longrightarrow>
            dispatch cv now req books =
              (Json \<lparr>status = 400, success = False, data = NoData,
                     message = Some ''Year must be greater than 1900''\<rparr>, books)) \<and>
         (truthy (body_title req) \<and> truthy (body_author req) \<and>
          body_year req = JNum (Fin 1901) \<longrightarrow>
            (\<exists>b. dispatch cv now req books =
               (Json \<lparr>status = 201, success = True, data = OneBook b, message = None\<rparr>,
                books @ [b])))"
proof -
  have d: "dispatch cv now req books = post_book cv now (req\<lparr>params_id := None\<rparr>) books"
    using assms by (rule dispatch_post)
  have le: "js_le cv (JNum (Fin 1900)) 1900 = Some True"
    "js_le cv (JNum (Fin 1901)) 1900 = Some False"
    by (simp_all add: js_le_def)
  show ?thesis
    unfolding d
    by (cases "js_le cv (body_year req) 1900")
       (auto simp: post_book_def bad_request_def Let_def le)
qed

theorem C4_create_validation_witness:
  "dispatch (\<lambda>v. NaN) 0
     (blank_request\<lparr>req_method := POST, path := [''books''], body_title := JStr ''X'',
        body_year := JNum (Fin 1800)\<rparr>) books_init =
     (Json \<lparr>status = 400, success = False, data = NoData,
            message = Some ''All fields (title, author, year) are required''\<rparr>, books_init) \<and>
   dispatch (\<lambda>v. NaN) 0
     (blank_request\<lparr>req_method := POST, path := [''books''], body_title := JStr ''X'',
        body_author := JStr ''Y'', body_year := JNum (Fin 1900)\<rparr>) books_init =
     (Json \<lparr>status = 400, success = False, data = NoData,
            message = Some ''Year must be greater than 1900''\<rparr>, books_init) \<and>
   (\<exists>b. dispatch (\<lambda>v. NaN) 0
     (blank_request\<lparr>req_method := POST, path := [''books''], body_title := JStr ''X'',
        body_author := JStr ''Y'', body_year := JNum (Fin 1901)\<rparr>) books_init =
     (Json \<lparr>status = 201, success = True, data = OneBook b, message = None\<rparr>, books_init @ [b])) \<and>
   dispatch (\<lambda>v. NaN) 0
     (blank_request\<lparr>req_method := POST, path := [''books''], body_title := JStr ''X'',
        body_author := JStr ''Y'', body_year := JObj [(''toString'', JNum (Fin 1))]\<rparr>)
     books_init = (Thrown, books_init)"
proof -
  let ?r1 = "blank_request\<lparr>req_method := POST, path := [''books''], body_title := JStr ''X'',
        body_year := JNum (Fin 1800)\<rparr>"
  let ?r2 = "blank_request\<lparr>req_method := POST, path := [''books''], body_title := JStr ''X'',
        body_author := JStr ''Y'', body_year := JNum (Fin 1900)\<rparr>"
  let ?r3 = "blank_request\<lparr>req_method := POST, path := [''books''], body_title := JStr ''X'',
        body_author := JStr ''Y'', body_year := JNum (Fin 1901)\<rparr>"
  let ?r4 = "blank_request\<lparr>req_method := POST, path := [''books''], body_title := JStr ''X'',
        body_author := JStr ''Y'', body_year := JObj [(''toString'', JNum (Fin 1))]\<rparr>"
  have m: "req_method ?r1 = POST" "path ?r1 = [''books'']" "req_method ?r2 = POST"
    "path ?r2 = [''books'']" "req_method ?r3 = POST" "path ?r3 = [''books'']"
    "req_method ?r4 = POST" "path ?r4 = [''books'']"
    by (simp_all add: blank_request_def)
  have h1: "\<not> truthy (body_title ?r1) \<or> \<not> truthy (body_author ?r1) \<or> \<not> truthy (body_year ?r1)"
    by (simp add: blank_request_def)
  have h2: "truthy (body_title ?r2) \<and> truthy (body_author ?r2) \<and>
      body_year ?r2 = JNum (Fin 1900)"
    by (simp add: blank_request_def)
  have h3: "truthy (body_title ?r3) \<and> truthy (body_author ?r3) \<and>
      body_year ?r3 = JNum (Fin 1901)"
    by (simp add: blank_request_def)
  have h4: "truthy (body_title ?r4) \<and> truthy (body_author ?r4) \<and> truthy (body_year ?r4) \<and>
      js_le (\<lambda>v. NaN) (body_year ?r4) 1900 = None"
    by (simp add: blank_request_def js_le_def)
  have c1: "dispatch (\<lambda>v. NaN) 0 ?r1 books_init =
     (Json \<lparr>status = 400, success = False, data = NoData,
            message = Some ''All fields (title, author, year) are required''\<rparr>, books_init)"
    using C4_create_validation [OF m(1,2), of "\<lambda>v. NaN" 0 books_init] h1 by blast
  have c2: "dispatch (\<lambda>v. NaN) 0 ?r2 books_init =
     (Json \<lparr>status = 400, success = False, data = NoData,
            message = Some ''Year must be greater than 1900''\<rparr>, books_init)"
    using C4_create_validation [OF m(3,4), of "\<lambda>v. NaN" 0 books_init] h2 by blast
  have c3: "\<exists>b. dispatch (\<lambda>v. NaN) 0 ?r3 books_init =
     (Json \<lparr>status = 201, success = True, data = OneBook b, message = None\<rparr>, books_init @ [b])"
    using C4_create_validation [OF m(5,6), of "\<lambda>v. NaN" 0 books_init] h3 by blast
  have c4: "dispatch (\<lambda>v. NaN) 0 ?r4 books_init = (Thrown, books_init)"
    using C4_create_validation [OF m(7,8), of "\<lambda>v. NaN" 0 books_init] h4 by blast
  from c1 c2 c3 c4 show ?thesis
    by (simp only:)
qed

section \<open>Update\<close>

lemma parseInt_Nil: "parseInt [] = None"
  by (simp add: parseInt_def)

text \<open>The update handler on a request whose parsed id is the id of the book at index \<open>i\<close>,
  the first with that id.\<close>

lemma put_book_found:
  assumes "params_id req = Some seg" and "parseInt seg = Some n"
    and "i < length books" and "book_id (books ! i) = n" and "\<forall>j<i. book_id (books ! j) \<noteq> n"
  shows "put_book cv req books =
     (case (if truthy (body_year req) then js_le cv (body_year req) 1900 else Some False) of
        None \<Rightarrow> (Thrown, books)
      | Some le \<Rightarrow>
          if le then (Json (bad_request ''Year must be greater than 1900''), books)
          else (Json \<lparr>status = 200, success = True,
                  data = OneBook
                    \<lparr>book_id = book_id (books ! i),
                     title = (if truthy (body_title req) then body_title req else title (books ! i)),
                     author = (if truthy (body_author req) then body_author req
                               else author (books ! i)),
                     year = (if truthy (body_year req) then body_year req else year (books ! i)),
                     completed = (if body_completed req \<noteq> JUndefined then body_completed req
                                  else completed (books ! i)),
                     createdAt = createdAt (books ! i)\<rparr>,
                  message = Some ''Book updated successfully''\<rparr>,
            books[i :=
                    \<lparr>book_id = book_id (books ! i),
                     title = (if truthy (body_title req) then body_title req else title (books ! i)),
                     author = (if truthy (body_author req) then body_author req
                               else author (books ! i)),
                     year = (if truthy (body_year req) then body_year req else year (books ! i)),
                     completed = (if body_completed req \<noteq> JUndefined then body_completed req
                                  else completed (books ! i)),
                     createdAt = createdAt (books ! i)\<rparr>]))"
proof -
  have idx: "findIndex (\<lambda>b. strict_eq_id (book_id b) (Some n)) books = Some i"
    using assms(3-5) by (intro findIndex_first) (auto simp: strict_eq_id_def)
  obtain b0 t0 a0 y0 c0 d0 where b: "books ! i =
      \<lparr>book_id = b0, title = t0, author = a0, year = y0, completed = c0, createdAt = d0\<rparr>"
    by (cases "books ! i") auto
  have same: "books[i :=
      \<lparr>book_id = b0, title = t0, author = a0, year = y0, completed = c0, createdAt = d0\<rparr>] =
      books"
    by (metis b list_update_id)
  show ?thesis
    using assms(1,2,3) idx
    by (simp add: put_book_def parse_id_def Let_def b same split: option.splits)
qed

text \<open>
  C5. As first stated (on an existing book each of title, author, year is overwritten
  exactly when the supplied value is truthy, and a truthy year \<^verbatim>\<open><= 1900\<close> gives 400) the
  claim fails when the supplied year has no primitive value: for the payload
  \<^verbatim>\<open>{"title": "T", "year": {"toString": 1}}\<close> sent to \<^verbatim>\<open>PUT /books/2\<close> on the seed registry
  the comparison \<^verbatim>\<open>year <= 1900\<close> throws, the request ends in an exception and not in a
  400, and the truthy title is not written.
\<close>

theorem C5_throwing_year_counterexample:
  "truthy (JStr ''T'') \<and> truthy (JObj [(''toString'', JNum (Fin 1))]) \<and>
   dispatch (\<lambda>v. NaN) 0
     (blank_request\<lparr>req_method := PUT, path := [''books'', ''2''], body_title := JStr ''T'',
        body_year := JObj [(''toString'', JNum (Fin 1))]\<rparr>)
     books_init = (Thrown, books_init) \<and>
   title (books_init ! 1) = JStr ''Clean Code''"
  by (simp add: blank_request_def dispatch_put put_book_def parse_id_def parseInt_def is_ws_def
      radix_digit_def digit_val_def digits_value_def strict_eq_id_def js_le_def books_init_def)

text \<open>
  C5, amended. An update request (PUT /books/:id) on an existing book, the first one at
  index \<open>i\<close> whose id is the parsed one. If year is truthy and \<^verbatim>\<open>year <= 1900\<close> the answer
  is 400 "Year must be greater than 1900" and nothing is changed; if year is truthy and
  the comparison throws, the request ends in that exception and nothing is changed.
  Otherwise title, author and year are overwritten exactly when the supplied value is
  truthy (an empty-string title or a year 0 leaves the field as it was); completed is
  overwritten exactly when it is present, the value false included; id and createdAt
  keep their values; all other books keep theirs. Updating only \<open>completed: false\<close>
  changes only that field of that book.
\<close>

theorem C5_update_fields:
  assumes "req_method req = PUT" and "path req = [''books'', seg]"
    and "parseInt seg = Some n"
    and "i < length books" and "book_id (books ! i) = n" and "\<forall>j<i. book_id (books ! j) \<noteq> n"
  shows "(truthy (body_year req) \<and> js_le cv (body_year req) 1900 = Some True \<longrightarrow>
            dispatch cv now req books =
              (Json \<lparr>status = 400, success = False, data = NoData,
                     message = Some ''Year must be greater than 1900''\<rparr>, books)) \<and>
         (truthy (body_year req) \<and> js_le cv (body_year req) 1900 = None \<longrightarrow>
            dispatch cv now req books = (Thrown, books)) \<and>
         (\<not> truthy (body_year req) \<or> js_le cv (body_year req) 1900 = Some False \<longrightarrow>
            dispatch cv now req books =
              (Json \<lparr>status = 200, success = True,
                  data = OneBook
                    \<lparr>book_id = book_id (books ! i),
                     title = (if truthy (body_title req) then body_title req else title (books ! i)),
                     author = (if truthy (body_author req) then body_author req
                               else author (books ! i)),
                     year = (if truthy (body_year req) then body_year req else year (books ! i)),
                     completed = (if body_completed req \<noteq> JUndefined then body_completed req
                                  else completed (books ! i)),
                     createdAt = createdAt (books ! i)\<rparr>,
                  message = Some ''Book updated successfully''\<rparr>,
               books[i :=
                    \<lparr>book_id = book_id (books ! i),
                     title = (if truthy (body_title req) then body_title req else title (books ! i)),
                     author = (if truthy (body_author req) then body_author req
                               else author (books ! i)),
                     year = (if truthy (body_year req) then body_year req else year (books ! i)),
                     completed = (if body_completed req \<noteq> JUndefined then body_completed req
                                  else completed (books ! i)),
                     createdAt = createdAt (books ! i)\<rparr>])) \<and>
         (body_title req = JUndefined \<and> body_author req = JUndefined \<and>
          body_year req = JUndefined \<and> body_completed req = JBool False \<longrightarrow>
            snd (dispatch cv now req books) = books[i := (books ! i)\<lparr>completed := JBool False\<rparr>])"
proof -
  from assms(3) have seg: "seg \<noteq> []"
    by (auto simp: parseInt_Nil)
  have d: "dispatch cv now req books = put_book cv (req\<lparr>params_id := Some seg\<rparr>) books"
    using assms(1,2) seg by (rule dispatch_put)
  obtain b0 t0 a0 y0 c0 d0 where b: "books ! i =
      \<lparr>book_id = b0, title = t0, author = a0, year = y0, completed = c0, createdAt = d0\<rparr>"
    by (cases "books ! i") auto
  show ?thesis
    unfolding d
    using put_book_found [of "req\<lparr>params_id := Some seg\<rparr>" seg n i books cv, OF _ assms(3-6)]
    by (auto simp: bad_request_def b)
qed

theorem C5_update_fields_witness:
  "dispatch (\<lambda>v. NaN) 0
     (blank_request\<lparr>req_method := PUT, path := [''books'', ''2''], body_completed := JBool False\<rparr>)
     books_init =
   (Json \<lparr>status = 200, success = True,
          data = OneBook ((books_init ! 1)\<lparr>completed := JBool False\<rparr>),
          message = Some ''Book updated successfully''\<rparr>,
    books_init[1 := (books_init ! 1)\<lparr>completed := JBool False\<rparr>]) \<and>
   dispatch (\<lambda>v. NaN) 0
     (blank_request\<lparr>req_method := PUT, path := [''books'', ''2''], body_title := JStr [],
        body_year := JNum (Fin 0)\<rparr>)
     books_init =
   (Json \<lparr>status = 200, success = True, data = OneBook (books_init ! 1),
          message = Some ''Book updated successfully''\<rparr>, books_init) \<and>
   dispatch (\<lambda>v. NaN) 0
     (blank_request\<lparr>req_method := PUT, path := [''books'', ''2''], body_title := JStr ''T'',
        body_year := JNum (Fin 1900)\<rparr>)
     books_init =
   (Json \<lparr>status = 400, success = False, data = NoData,
          message = Some ''Year must be greater than 1900''\<rparr>, books_init) \<and>
   dispatch (\<lambda>v. NaN) 0
     (blank_request\<lparr>req_method := PUT, path := [''books'', ''2''], body_title := JStr ''T'',
        body_year := JArr [JObj [(''toString'', JNull)]]\<rparr>)
     books_init = (Thrown, books_init) \<and>
   dispatch (\<lambda>v. NaN) 0
     (blank_request\<lparr>req_method := PUT, path := [''books'', ''2''], body_title := JStr ''T'',
        body_year := JNum (Fin 1999)\<rparr>)
     books_init =
   (Json \<lparr>status = 200, success = True,
          data = OneBook ((books_init ! 1)\<lparr>title := JStr ''T'', year := JNum (Fin 1999)\<rparr>),
          message = Some ''Book updated successfully''\<rparr>,
    books_init[1 := (books_init ! 1)\<lparr>title := JStr ''T'', year := JNum (Fin 1999)\<rparr>])"
proof -
  have p: "parseInt ''2'' = Some 2"
    by (simp add: parseInt_def is_ws_def radix_digit_def digit_val_def digits_value_def)
  have h: "(1::nat) < length books_init" "book_id (books_init ! 1) = 2"
    "\<forall>j<1::nat. book_id (books_init ! j) \<noteq> 2"
    by (simp_all add: books_init_def)
  note t = C5_update_fields [of _ "''2''" 2 1 books_init "\<lambda>v. NaN" 0, OF _ _ p h]
  show ?thesis
    using t [of "blank_request\<lparr>req_method := PUT, path := [''books'', ''2''],
                   body_completed := JBool False\<rparr>"]
      t [of "blank_request\<lparr>req_method := PUT, path := [''books'', ''2''], body_title := JStr [],
               body_year := JNum (Fin 0)\<rparr>"]
      t [of "blank_request\<lparr>req_method := PUT, path := [''books'', ''2''], body_title := JStr ''T'',
               body_year := JNum (Fin 1900)\<rparr>"]
      t [of "blank_request\<lparr>req_method := PUT, path := [''books'', ''2''], body_title := JStr ''T'',
               body_year := JArr [JObj [(''toString'', JNull)]]\<rparr>"]
      t [of "blank_request\<lparr>req_method := PUT, path := [''books'', ''2''], body_title := JStr ''T'',
               body_year := JNum (Fin 1999)\<rparr>"]
    by (simp add: blank_request_def js_le_def books_init_def)
qed

section \<open>Failures and what each handler leaves unchanged\<close>

lemma find_missing:
  "\<forall>b\<in>set books. parsed \<noteq> Some (book_id b) \<Longrightarrow>
   find (\<lambda>b. strict_eq_id (book_id b) parsed) books = None"
  by (simp add: find_None_iff strict_eq_id_def)

lemma findIndex_missing:
  "\<forall>b\<in>set books. parsed \<noteq> Some (book_id b) \<Longrightarrow>
   findIndex (\<lambda>b. strict_eq_id (book_id b) parsed) books = None"
  by (simp add: findIndex_None strict_eq_id_def)

lemma get_book_unchanged: "snd (get_book req books) = books"
  by (simp add: get_book_def Let_def split: option.splits)

lemma get_book_missing:
  "\<forall>b\<in>set books. parse_id req \<noteq> Some (book_id b) \<Longrightarrow>
   get_book req books = (Json not_found, books)"
  by (simp add: get_book_def find_missing)

lemma put_book_missing:
  "\<forall>b\<in>set books. parse_id req \<noteq> Some (book_id b) \<Longrightarrow>
   put_book cv req books = (Json not_found, books)"
  by (simp add: put_book_def findIndex_missing)

lemma delete_book_missing:
  "\<forall>b\<in>set books. parse_id req \<noteq> Some (book_id b) \<Longrightarrow>
   delete_book req books = (Json not_found, books)"
  by (simp add: delete_book_def findIndex_missing)

lemma delete_book_at:
  "findIndex (\<lambda>b. strict_eq_id (book_id b) (parse_id req)) books = Some i \<Longrightarrow>
   delete_book req books =
     (Json \<lparr>status = 200, success = True, data = NoData,
            message = Some ''Book deleted successfully''\<rparr>, splice1 i books)"
  by (simp add: delete_book_def)

text \<open>The update handler writes fields of one book and never its id.\<close>

lemma map_update_same: "f y = f (xs ! i) \<Longrightarrow> map f (xs[i := y]) = map f xs"
  by (metis list_update_id map_update)

lemma put_book_ids: "map book_id (snd (put_book cv req books)) = map book_id books"
proof (cases "findIndex (\<lambda>b. strict_eq_id (book_id b) (parse_id req)) books")
  case None
  then show ?thesis by (simp add: put_book_def)
next
  case (Some i)
  then have "i < length books"
    by (auto dest: findIndex_SomeD)
  with Some show ?thesis
    by (simp add: put_book_def Let_def map_update_same split: option.splits)
qed

lemma put_book_failure:
  "\<forall>r. fst (put_book cv req books) = Json r \<longrightarrow> \<not> success r \<Longrightarrow>
   snd (put_book cv req books) = books"
  by (simp add: put_book_def Let_def split: option.splits if_splits)

lemma post_book_failure:
  "\<forall>r. fst (post_book cv now req books) = Json r \<longrightarrow> \<not> success r \<Longrightarrow>
   snd (post_book cv now req books) = books"
  by (simp add: post_book_def Let_def split: if_splits option.splits)

lemma delete_book_failure:
  "\<forall>r. fst (delete_book req books) = Json r \<longrightarrow> \<not> success r \<Longrightarrow>
   snd (delete_book req books) = books"
  by (simp add: delete_book_def Let_def split: option.splits)

lemma run_handler_failure:
  assumes "\<forall>r. fst (run_handler cv now h req books) = Json r \<longrightarrow> \<not> success r"
  shows "snd (run_handler cv now h req books) = books"
proof (cases h)
  case PostBook
  with assms show ?thesis by (simp add: post_book_failure)
next
  case PutBook
  with assms show ?thesis by (simp add: put_book_failure)
next
  case DeleteBook
  with assms show ?thesis by (simp add: delete_book_failure)
qed (simp_all add: get_books_def get_book_unchanged get_completed_def get_search_def Let_def
      split: option.splits)

lemma dispatch_failure:
  "\<forall>r. fst (dispatch cv now req books) = Json r \<longrightarrow> \<not> success r \<Longrightarrow>
   snd (dispatch cv now req books) = books"
  unfolding dispatch_def
  by (auto split: option.splits intro: run_handler_failure)

text \<open>
  C6. A get-by-id, update or delete request whose parsed id matches no book of the
  registry is answered with status 404 and exactly \<open>{success: false, message: "Book not
  found"}\<close>, and the registry is unchanged. And whenever a request does not end in a
  success response (a NotFound or InvalidInput answer, and also a thrown exception or an
  unrouted request), the registry is left exactly as it was.
\<close>

theorem C6_not_found_and_failures:
  "((req_method req = GET \<or> req_method req = PUT \<or> req_method req = DELETE) \<and>
    path req = [''books'', seg] \<and> seg \<noteq> [] \<and>
    (\<forall>b\<in>set books. parseInt seg \<noteq> Some (book_id b)) \<longrightarrow>
      dispatch cv now req books =
        (Json \<lparr>status = 404, success = False, data = NoData, message = Some ''Book not found''\<rparr>,
         books)) \<and>
   ((\<forall>r. fst (dispatch cv now req books) = Json r \<longrightarrow> \<not> success r) \<longrightarrow>
      snd (dispatch cv now req books) = books)"
proof (intro conjI impI)
  assume a: "(req_method req = GET \<or> req_method req = PUT \<or> req_method req = DELETE) \<and>
    path req = [''books'', seg] \<and> seg \<noteq> [] \<and>
    (\<forall>b\<in>set books. parseInt seg \<noteq> Some (book_id b))"
  then have miss: "\<forall>b\<in>set books. parse_id (req\<lparr>params_id := Some seg\<rparr>) \<noteq> Some (book_id b)"
    by (simp add: parse_id_def)
  from a consider "req_method req = GET" | "req_method req = PUT" | "req_method req = DELETE"
    by blast
  then show "dispatch cv now req books =
        (Json \<lparr>status = 404, success = False, data = NoData, message = Some ''Book not found''\<rparr>,
         books)"
  proof cases
    case 1
    with a miss show ?thesis
      by (simp add: dispatch_get get_book_missing not_found_def)
  next
    case 2
    with a miss show ?thesis
      by (simp add: dispatch_put put_book_missing not_found_def)
  next
    case 3
    with a miss show ?thesis
      by (simp add: dispatch_delete delete_book_missing not_found_def)
  qed
next
  assume "\<forall>r. fst (dispatch cv now req books) = Json r \<longrightarrow> \<not> success r"
  then show "snd (dispatch cv now req books) = books"
    by (rule dispatch_failure)
qed

theorem C6_not_found_and_failures_witness:
  "dispatch (\<lambda>v. NaN) 0 (blank_request\<lparr>req_method := GET, path := [''books'', ''99'']\<rparr>) books_init =
     (Json \<lparr>status = 404, success = False, data = NoData, message = Some ''Book not found''\<rparr>,
      books_init) \<and>
   snd (dispatch (\<lambda>v. NaN) 0
          (blank_request\<lparr>req_method := PUT, path := [''books'', ''2''],
             body_title := JStr ''T'', body_year := JNum (Fin 1800)\<rparr>) books_init) = books_init"
proof -
  have p99: "parseInt ''99'' = Some 99" and p2: "parseInt ''2'' = Some 2"
    by (simp_all add: parseInt_def is_ws_def radix_digit_def digit_val_def digits_value_def)
  have miss: "\<forall>b\<in>set books_init. parseInt ''99'' \<noteq> Some (book_id b)"
    by (simp add: p99 books_init_def)
  have fails: "\<forall>r. fst (dispatch (\<lambda>v. NaN) 0
          (blank_request\<lparr>req_method := PUT, path := [''books'', ''2''],
             body_title := JStr ''T'', body_year := JNum (Fin 1800)\<rparr>) books_init) = Json r \<longrightarrow>
        \<not> success r"
    by (simp add: blank_request_def dispatch_put put_book_def parse_id_def p2 books_init_def
        strict_eq_id_def js_le_def bad_request_def)
  show ?thesis
    using C6_not_found_and_failures
      [of "blank_request\<lparr>req_method := GET, path := [''books'', ''99'']\<rparr>" "''99''" books_init
          "\<lambda>v. NaN" 0] miss
      C6_not_found_and_failures
      [of "blank_request\<lparr>req_method := PUT, path := [''books'', ''2''],
             body_title := JStr ''T'', body_year := JNum (Fin 1800)\<rparr>" "''2''" books_init
          "\<lambda>v. NaN" 0] fails
    by (simp add: blank_request_def)
qed

section \<open>Delete and the ids of the registry\<close>

lemma newId_greater: "b \<in> set books \<Longrightarrow> book_id b < newId books"
proof -
  assume b: "b \<in> set books"
  then have "book_id b \<le> Max (book_id ` set books)"
    by (intro Max_ge) auto
  with b show ?thesis
    by (auto simp: newId_Max)
qed

lemma newId_positive: "\<forall>b\<in>set books. 0 < book_id b \<Longrightarrow> 0 < newId books"
proof (cases books)
  case Nil
  then show ?thesis by (simp add: newId_def)
next
  case (Cons b bs)
  assume "\<forall>b\<in>set books. 0 < book_id b"
  with Cons have "0 < book_id b" by simp
  moreover have "book_id b < newId books"
    using Cons by (intro newId_greater) simp
  ultimately show ?thesis by simp
qed

lemma post_book_cases:
  "snd (post_book cv now req books) = books \<or>
   (\<exists>b. snd (post_book cv now req books) = books @ [b] \<and> book_id b = newId books)"
  by (simp add: post_book_def Let_def split: option.splits)

lemma delete_book_cases:
  "snd (delete_book req books) = books \<or>
   (\<exists>i<length books. snd (delete_book req books) = splice1 i books)"
  by (auto simp: delete_book_def Let_def split: option.splits dest: findIndex_SomeD)

lemma splice1_subseq: "subseq (splice1 i xs) xs"
proof (cases "i < length xs")
  case True
  then have xs: "xs = take i xs @ xs ! i # drop (Suc i) xs"
    by (rule id_take_nth_drop)
  have "subseq (take i xs @ drop (Suc i) xs) (take i xs @ xs ! i # drop (Suc i) xs)"
    by (simp add: subseq_append' subseq_Cons')
  with xs show ?thesis
    by (simp add: splice1_def)
next
  case False
  then show ?thesis by (simp add: splice1_def)
qed

lemma splice1_length: "i < length xs \<Longrightarrow> length (splice1 i xs) + 1 = length xs"
  by (simp add: splice1_def)

lemma splice1_distinct:
  assumes "distinct (map f xs)"
  shows "distinct (map f (splice1 i xs))"
proof -
  have "set (take i (map f xs)) \<inter> set (drop (Suc i) (map f xs)) = {}"
    using assms by (intro set_take_disj_set_drop_if_distinct) simp_all
  moreover have "distinct (take i (map f xs))" "distinct (drop (Suc i) (map f xs))"
    using assms by (simp_all only: distinct_take distinct_drop)
  ultimately show ?thesis
    by (simp add: splice1_def take_map drop_map)
qed

lemma splice1_removes:
  assumes "distinct (map f xs)" and "i < length xs"
  shows "f (xs ! i) \<notin> f ` set (splice1 i xs)"
proof -
  have "xs = take i xs @ xs ! i # drop (Suc i) xs"
    using assms(2) by (rule id_take_nth_drop)
  then have "distinct (map f (take i xs @ xs ! i # drop (Suc i) xs))"
    using assms(1) by simp
  then show ?thesis
    by (auto simp: splice1_def)
qed

lemma dispatch_snd_cases:
  "snd (dispatch cv now req books) = books \<or>
   (req_method req = POST \<and>
      (\<exists>b. snd (dispatch cv now req books) = books @ [b] \<and> book_id b = newId books)) \<or>
   (req_method req = PUT \<and>
      map book_id (snd (dispatch cv now req books)) = map book_id books) \<or>
   (req_method req = DELETE \<and>
      (\<exists>i<length books. snd (dispatch cv now req books) = splice1 i books))"
proof (cases "lookup_route routes (req_method req) (path req)")
  case None
  then show ?thesis by (simp add: dispatch_def)
next
  case (Some hp)
  obtain h p where hp: "hp = (h, p)" by (cases hp)
  note m = route_handler_method [OF Some [unfolded hp]]
  have d: "dispatch cv now req books = run_handler cv now h (req\<lparr>params_id := p\<rparr>) books"
    using Some hp by (simp add: dispatch_def)
  show ?thesis
  proof (cases h)
    case PostBook
    with m d post_book_cases [of cv now "req\<lparr>params_id := p\<rparr>" books] show ?thesis by auto
  next
    case PutBook
    with m d put_book_ids [of cv "req\<lparr>params_id := p\<rparr>" books] show ?thesis by auto
  next
    case DeleteBook
    with m d delete_book_cases [of "req\<lparr>params_id := p\<rparr>" books] show ?thesis by auto
  qed (simp_all add: d get_books_def get_book_unchanged get_completed_def get_search_def Let_def
      split: option.splits)
qed

lemma ids_step:
  assumes "distinct (map book_id books)" and "\<forall>b\<in>set books. 0 < book_id b"
  shows "distinct (map book_id (snd (dispatch cv now req books))) \<and>
         (\<forall>b\<in>set (snd (dispatch cv now req books)). 0 < book_id b)"
proof -
  let ?books' = "snd (dispatch cv now req books)"
  consider "?books' = books"
    | b where "?books' = books @ [b]" "book_id b = newId books"
    | "map book_id ?books' = map book_id books"
    | i where "i < length books" "?books' = splice1 i books"
    using dispatch_snd_cases [of cv now req books] by blast
  then show ?thesis
  proof cases
    case 1
    with assms show ?thesis by simp
  next
    case 2
    have "newId books \<notin> book_id ` set books"
      using newId_greater by fastforce
    with 2 assms newId_positive [OF assms(2)] show ?thesis by auto
  next
    case 3
    then have eq: "book_id ` set ?books' = book_id ` set books"
      by (metis set_map)
    have "\<forall>b\<in>set ?books'. 0 < book_id b"
    proof
      fix b assume "b \<in> set ?books'"
      then have "book_id b \<in> book_id ` set books"
        using eq by blast
      with assms(2) show "0 < book_id b" by auto
    qed
    with 3 assms(1) show ?thesis by simp
  next
    case 4
    have "set (splice1 i books) \<subseteq> set books"
      by (auto simp: splice1_def dest: in_set_takeD in_set_dropD)
    with 4 assms splice1_distinct [OF assms(1), of i] show ?thesis by auto
  qed
qed

lemma reachable_ids:
  "reachable books \<Longrightarrow> distinct (map book_id books) \<and> (\<forall>b\<in>set books. 0 < book_id b)"
proof (induction rule: reachable.induct)
  case init
  show ?case by (simp add: books_init_def)
next
  case (step books cv now req)
  then show ?case using ids_step by blast
qed

text \<open>
  C7. A delete request (DELETE /books/:id) whose parsed id is the id of the book at
  index \<open>i\<close> of a registry the program can hold: the answer is status 200 with a success
  message and no data; the registry afterwards is the old one without the element at
  \<open>i\<close>, the others in their order; its length is one less; and a get-by-id request for
  the same id on the new registry is answered 404.
\<close>

theorem C7_delete:
  assumes "reachable books"
    and "req_method req = DELETE" and "path req = [''books'', seg]" and "parseInt seg = Some n"
    and "i < length books" and "book_id (books ! i) = n"
    and "req_method req' = GET" and "path req' = [''books'', seg']" and "parseInt seg' = Some n"
  shows "dispatch cv now req books =
           (Json \<lparr>status = 200, success = True, data = NoData,
                  message = Some ''Book deleted successfully''\<rparr>,
            take i books @ drop (Suc i) books) \<and>
         length (snd (dispatch cv now req books)) + 1 = length books \<and>
         dispatch cv' now' req' (snd (dispatch cv now req books)) =
           (Json \<lparr>status = 404, success = False, data = NoData, message = Some ''Book not found''\<rparr>,
            snd (dispatch cv now req books))"
proof -
  from assms(4) have seg: "seg \<noteq> []" by (auto simp: parseInt_Nil)
  from assms(9) have seg': "seg' \<noteq> []" by (auto simp: parseInt_Nil)
  have dist: "distinct (map book_id books)"
    using reachable_ids [OF assms(1)] by simp
  have first: "\<forall>j<i. book_id (books ! j) \<noteq> n"
  proof (intro allI impI)
    fix j assume j: "j < i"
    with assms(5) have "map book_id books ! j \<noteq> map book_id books ! i"
      using dist by (simp add: nth_eq_iff_index_eq del: nth_map)
    with j assms(5,6) show "book_id (books ! j) \<noteq> n" by simp
  qed
  have idx: "findIndex (\<lambda>b. strict_eq_id (book_id b) (Some n)) books = Some i"
    using assms(5,6) first by (intro findIndex_first) (auto simp: strict_eq_id_def)
  have d: "dispatch cv now req books =
      (Json \<lparr>status = 200, success = True, data = NoData,
             message = Some ''Book deleted successfully''\<rparr>, splice1 i books)"
    using assms(2,3,4) seg idx
    by (simp add: dispatch_delete delete_book_at parse_id_def)
  have gone: "\<forall>b\<in>set (splice1 i books). Some n \<noteq> Some (book_id b)"
    using splice1_removes [OF dist assms(5)] assms(6) by auto
  have g: "dispatch cv' now' req' (splice1 i books) = (Json not_found, splice1 i books)"
    using assms(7,8,9) seg' gone
    by (simp add: dispatch_get get_book_missing parse_id_def)
  show ?thesis
    using d g splice1_length [OF assms(5)]
    by (simp add: splice1_def not_found_def)
qed

theorem C7_delete_witness:
  "dispatch (\<lambda>v. NaN) 0 (blank_request\<lparr>req_method := DELETE, path := [''books'', ''2'']\<rparr>)
     books_init =
     (Json \<lparr>status = 200, success = True, data = NoData,
            message = Some ''Book deleted successfully''\<rparr>,
      [books_init ! 0, books_init ! 2]) \<and>
   dispatch (\<lambda>v. NaN) 0 (blank_request\<lparr>req_method := GET, path := [''books'', ''2'']\<rparr>)
     [books_init ! 0, books_init ! 2] =
     (Json \<lparr>status = 404, success = False, data = NoData, message = Some ''Book not found''\<rparr>,
      [books_init ! 0, books_init ! 2])"
proof -
  have p2: "parseInt ''2'' = Some 2"
    by (simp add: parseInt_def is_ws_def radix_digit_def digit_val_def digits_value_def)
  have h: "(1::nat) < length books_init" "book_id (books_init ! 1) = 2"
    by (simp_all add: books_init_def)
  have t: "take (Suc 0) books_init @ drop (Suc (Suc 0)) books_init =
      [books_init ! 0, books_init ! 2]"
    by (simp add: books_init_def)
  show ?thesis
    using C7_delete [OF reachable.init _ _ p2 h _ _ p2,
        of "blank_request\<lparr>req_method := DELETE, path := [''books'', ''2'']\<rparr>"
           "blank_request\<lparr>req_method := GET, path := [''books'', ''2'']\<rparr>"
           "\<lambda>v. NaN" 0 "\<lambda>v. NaN" 0]
    by (auto simp add: blank_request_def t)
qed

text \<open>
  C8. In every registry the program can hold, starting from the three seed records, the
  ids are pairwise different and positive. A request that makes the registry longer is a
  create request, it appends one book, and that book's id is (maximum id) + 1, or 1 for
  an empty registry, computed from the registry at that moment. An update request leaves
  the list of ids as it is, and a delete request leaves a subsequence of the registry.
\<close>

theorem C8_id_invariant:
  assumes "reachable books"
  shows "distinct (map book_id books) \<and> (\<forall>b\<in>set books. 0 < book_id b) \<and>
     (length books < length (snd (dispatch cv now req books)) \<longrightarrow>
        req_method req = POST \<and>
        (\<exists>b. snd (dispatch cv now req books) = books @ [b] \<and>
             book_id b = (if books = [] then 1 else Max (book_id ` set books) + 1))) \<and>
     (req_method req = PUT \<longrightarrow>
        map book_id (snd (dispatch cv now req books)) = map book_id books) \<and>
     (req_method req = DELETE \<longrightarrow> subseq (snd (dispatch cv now req books)) books)"
proof -
  let ?books' = "snd (dispatch cv now req books)"
  note c = dispatch_snd_cases [of cv now req books]
  have grow: "length books < length ?books' \<longrightarrow>
        req_method req = POST \<and>
        (\<exists>b. ?books' = books @ [b] \<and>
             book_id b = (if books = [] then 1 else Max (book_id ` set books) + 1))"
  proof
    assume l: "length books < length ?books'"
    have "length (map book_id ?books') = length ?books'" by simp
    with l have "map book_id ?books' \<noteq> map book_id books"
      by (metis length_map less_irrefl)
    moreover have "\<not> (\<exists>i<length books. ?books' = splice1 i books)"
      using l by (auto simp: splice1_def)
    moreover have "?books' \<noteq> books" using l by auto
    ultimately show "req_method req = POST \<and>
        (\<exists>b. ?books' = books @ [b] \<and>
             book_id b = (if books = [] then 1 else Max (book_id ` set books) + 1))"
      using c by (auto simp: newId_Max)
  qed
  have put: "req_method req = PUT \<longrightarrow> map book_id ?books' = map book_id books"
    using c by auto
  have del: "req_method req = DELETE \<longrightarrow> subseq ?books' books"
    using c splice1_subseq by auto
  from reachable_ids [OF assms] grow put del show ?thesis by blast
qed

theorem C8_id_invariant_witness:
  "distinct (map book_id books_init) \<and> 0 < book_id (books_init ! 2) \<and>
   butlast (snd (dispatch (\<lambda>v. NaN) 0
            (blank_request\<lparr>req_method := POST, path := [''books''], body_title := JStr ''X'',
               body_author := JStr ''Y'', body_year := JNum (Fin 2000)\<rparr>) books_init)) =
     books_init \<and>
   book_id (last (snd (dispatch (\<lambda>v. NaN) 0
            (blank_request\<lparr>req_method := POST, path := [''books''], body_title := JStr ''X'',
               body_author := JStr ''Y'', body_year := JNum (Fin 2000)\<rparr>) books_init))) = 4"
proof -
  have grow: "length books_init <
      length (snd (dispatch (\<lambda>v. NaN) 0
            (blank_request\<lparr>req_method := POST, path := [''books''], body_title := JStr ''X'',
               body_author := JStr ''Y'', body_year := JNum (Fin 2000)\<rparr>) books_init))"
    by (simp add: blank_request_def dispatch_post post_book_def js_le_def Let_def)
  have m: "(if books_init = [] then 1 else Max (book_id ` set books_init) + 1) = 4"
    by (simp add: books_init_def)
  have third: "books_init ! 2 \<in> set books_init"
    by (simp add: books_init_def)
  show ?thesis
    using C8_id_invariant [OF reachable.init,
        of "\<lambda>v. NaN" 0 "blank_request\<lparr>req_method := POST, path := [''books''],
               body_title := JStr ''X'', body_author := JStr ''Y'', body_year := JNum (Fin 2000)\<rparr>"]
      grow third
    by (simp only: m) auto
qed

section \<open>Parsing the id segment\<close>

lemma radix10_range: "radix_digit 10 c \<longleftrightarrow> 48 \<le> (of_char c :: nat) \<and> (of_char c :: nat) \<le> 57"
  by (auto simp: radix_digit_def digit_val_def Let_def)

lemma digit_not_ws: "radix_digit 10 c \<Longrightarrow> \<not> is_ws c"
  by (auto simp: radix10_range is_ws_def)

lemma digit_not_sign: "radix_digit 10 c \<Longrightarrow> c \<noteq> CHR ''-'' \<and> c \<noteq> CHR ''+''"
  by (auto simp: radix10_range)

lemma takeWhile_prefix_run:
  "\<forall>c\<in>set ds. P c \<Longrightarrow> rest = [] \<or> \<not> P (hd rest) \<Longrightarrow> takeWhile P (ds @ rest) = ds"
  by (cases rest) (simp_all add: takeWhile_append2)

lemma strip_radix_decimal:
  "\<not> prefix ''0x'' s \<Longrightarrow> \<not> prefix ''0X'' s \<Longrightarrow> strip_radix s = (10, s)"
  by (cases s rule: strip_radix.cases) auto

lemma parseInt_decimal_prefix:
  assumes "ds \<noteq> []" and "\<forall>c\<in>set ds. radix_digit 10 c"
    and "rest = [] \<or> \<not> radix_digit 10 (hd rest)"
    and "\<not> prefix ''0x'' (ds @ rest)" and "\<not> prefix ''0X'' (ds @ rest)"
  shows "parseInt (ds @ rest) = Some (int (digits_value 10 ds))"
proof -
  obtain d ds' where ds: "ds = d # ds'"
    using assms(1) by (cases ds) auto
  with assms(2) have d: "radix_digit 10 d" by simp
  have ws: "dropWhile is_ws (ds @ rest) = ds @ rest"
    using ds digit_not_ws [OF d] by simp
  have sg: "strip_sign (ds @ rest) = (False, ds @ rest)"
    using ds digit_not_sign [OF d] by simp
  have rx: "strip_radix (ds @ rest) = (10, ds @ rest)"
    using assms(4,5) by (rule strip_radix_decimal)
  have tw: "takeWhile (radix_digit 10) (ds @ rest) = ds"
    using assms(2,3) by (rule takeWhile_prefix_run)
  show ?thesis
    using assms(1) by (simp add: parseInt_def ws sg rx tw)
qed

lemma digits_no_hex_prefix:
  "\<forall>c\<in>set ds. radix_digit 10 c \<Longrightarrow> \<not> prefix ''0x'' ds \<and> \<not> prefix ''0X'' ds"
  by (auto simp: prefix_def radix10_range)

lemma parseInt_digits:
  assumes "ds \<noteq> []" and "\<forall>c\<in>set ds. radix_digit 10 c"
  shows "parseInt ds = Some (int (digits_value 10 ds))"
  using parseInt_decimal_prefix [OF assms, of "[]"] digits_no_hex_prefix [OF assms(2)]
  by simp

lemma parseInt_leading_digit:
  assumes "radix_digit 10 c" and "\<not> prefix ''0x'' (c # s)" and "\<not> prefix ''0X'' (c # s)"
  shows "parseInt (c # s) \<noteq> None"
proof -
  define ds where "ds = takeWhile (radix_digit 10) (c # s)"
  define rest where "rest = dropWhile (radix_digit 10) (c # s)"
  have split: "c # s = ds @ rest"
    by (simp only: ds_def rest_def takeWhile_dropWhile_id)
  have ne: "ds \<noteq> []"
    using assms(1) by (simp add: ds_def)
  have dig: "\<forall>x\<in>set ds. radix_digit 10 x"
    by (auto simp: ds_def dest: set_takeWhileD)
  have stop: "rest = [] \<or> \<not> radix_digit 10 (hd rest)"
    unfolding rest_def by (metis hd_dropWhile)
  have "parseInt (ds @ rest) = Some (int (digits_value 10 ds))"
    using ne dig stop assms(2,3) [unfolded split] by (rule parseInt_decimal_prefix)
  then show ?thesis
    by (simp only: split) simp
qed

lemma get_book_parse: "parse_id r = parse_id r' \<Longrightarrow> get_book r books = get_book r' books"
  by (simp add: get_book_def)

lemma delete_book_parse:
  "parse_id r = parse_id r' \<Longrightarrow> delete_book r books = delete_book r' books"
  by (simp add: delete_book_def)

lemma put_book_parse:
  assumes "parse_id r = parse_id r'" and "body_title r = body_title r'"
    and "body_author r = body_author r'" and "body_year r = body_year r'"
    and "body_completed r = body_completed r'"
  shows "put_book cv r books = put_book cv r' books"
  unfolding put_book_def assms ..

lemma hex_prefix_not_skipped:
  "dropWhile is_ws (CHR ''0'' # s) = CHR ''0'' # s \<and> strip_sign (CHR ''0'' # s) = (False, CHR ''0'' # s)"
  by (simp add: is_ws_def)

lemma parseInt_hex_prefix:
  assumes "p = ''0x'' \<or> p = ''0X''" and "\<forall>c\<in>set hs. radix_digit 16 c"
    and "rest = [] \<or> \<not> radix_digit 16 (hd rest)"
  shows "parseInt (p @ hs @ rest) =
           (if hs = [] then None else Some (int (digits_value 16 hs)))"
proof -
  have tw: "takeWhile (radix_digit 16) (hs @ rest) = hs"
    using assms(2,3) by (rule takeWhile_prefix_run)
  have tw0: "takeWhile (radix_digit 16) rest = []" if "hs = []"
    using tw that by simp
  from assms(1) show ?thesis
    by (auto simp: parseInt_def hex_prefix_not_skipped tw tw0 simp del: dropWhile.simps)
qed

lemma digits_value_snoc:
  "digits_value r (z @ [c]) =
     digits_value r z * r + (case digit_val c of None \<Rightarrow> 0 | Some d \<Rightarrow> d)"
  by (simp add: digits_value_def)

lemma get_book_found:
  assumes "params_id req = Some seg" and "parseInt seg = Some n"
    and "i < length books" and "book_id (books ! i) = n" and "\<forall>j<i. book_id (books ! j) \<noteq> n"
  shows "get_book req books =
           (Json \<lparr>status = 200, success = True, data = OneBook (books ! i), message = None\<rparr>,
            books)"
proof -
  have "findIndex (\<lambda>b. strict_eq_id (book_id b) (Some n)) books = Some i"
    using assms(3-5) by (intro findIndex_first) (auto simp: strict_eq_id_def)
  then have "find (\<lambda>b. strict_eq_id (book_id b) (Some n)) books = Some (books ! i)"
    by (simp add: find_findIndex)
  with assms(1,2) show ?thesis
    by (simp add: get_book_def parse_id_def)
qed

lemma put_book_found_not_404:
  assumes "params_id req = Some seg" and "parseInt seg = Some n"
    and "i < length books" and "book_id (books ! i) = n" and "\<forall>j<i. book_id (books ! j) \<noteq> n"
  shows "fst (put_book cv req books) \<noteq> Json not_found"
  unfolding put_book_found [OF assms]
  by (simp add: not_found_def bad_request_def split: option.splits)

text \<open>
  C9. The id segment of get-by-id, update and delete is parsed with \<^verbatim>\<open>parseInt\<close>. As
  first stated (a segment of digits followed by non-digit characters is treated as the
  id of its decimal prefix, and only a segment with no leading digit parses to NaN) the
  claim fails on the hexadecimal prefix: \<^verbatim>\<open>parseInt("0xA")\<close> is 10 and not 0,
  \<^verbatim>\<open>parseInt("0x")\<close> is NaN although the segment starts with a digit, and on the seed
  registry \<^verbatim>\<open>GET /books/0x1\<close> returns book 1 where \<^verbatim>\<open>GET /books/0\<close> is answered 404.
\<close>

theorem C9_hex_counterexample:
  "radix_digit 10 (CHR ''0'') \<and> \<not> radix_digit 10 (CHR ''x'') \<and> \<not> radix_digit 10 (CHR ''A'') \<and>
   int (digits_value 10 ''0'') = 0 \<and>
   parseInt (''0'' @ ''xA'') = Some 10 \<and>
   parseInt (''0'' @ ''x'') = None \<and>
   dispatch (\<lambda>v. NaN) 0 (blank_request\<lparr>req_method := GET, path := [''books'', ''0'' @ ''x1'']\<rparr>)
     books_init =
     (Json \<lparr>status = 200, success = True, data = OneBook (books_init ! 0), message = None\<rparr>,
      books_init) \<and>
   dispatch (\<lambda>v. NaN) 0 (blank_request\<lparr>req_method := GET, path := [''books'', ''0'']\<rparr>)
     books_init =
     (Json \<lparr>status = 404, success = False, data = NoData, message = Some ''Book not found''\<rparr>,
      books_init)"
  by (simp add: radix_digit_def digit_val_def digits_value_def parseInt_def is_ws_def
      blank_request_def dispatch_get get_book_def parse_id_def strict_eq_id_def books_init_def
      not_found_def)

text \<open>
  C9, amended. The id segment is parsed with \<^verbatim>\<open>parseInt\<close>:
  \<^item> a segment that starts with decimal digits \<open>ds\<close>, continues with a character that is
    not a decimal digit (or ends there) and does not begin with \<^verbatim>\<open>0x\<close> or \<^verbatim>\<open>0X\<close> parses
    to the decimal value of \<open>ds\<close>, and get-by-id, update and delete answer it exactly as
    they answer the segment \<open>ds\<close>;
  \<^item> a segment that begins with \<^verbatim>\<open>0x\<close> or \<^verbatim>\<open>0X\<close> parses to the hexadecimal value of the
    hexadecimal digits \<open>hs\<close> that follow the prefix, and to NaN when none follows;
  \<^item> the value of a digit string is positional, with the digits \<open>0\<close> to \<open>9\<close> worth 0 to 9
    and \<open>a\<close> to \<open>f\<close>, in either case, worth 10 to 15;
  \<^item> when the segment parses to the id of the book at index \<open>i\<close>, the first with that id,
    get-by-id returns that book with status 200, delete removes it, and update is not
    answered "Book not found";
  \<^item> a segment that parses to NaN matches no book: the answer is 404 and the registry
    is unchanged;
  \<^item> a segment that starts with a decimal digit parses to NaN only if it begins with
    \<^verbatim>\<open>0x\<close> or \<^verbatim>\<open>0X\<close>.
\<close>

theorem C9_amended:
  "(ds \<noteq> [] \<and> (\<forall>c\<in>set ds. radix_digit 10 c) \<and> (rest = [] \<or> \<not> radix_digit 10 (hd rest)) \<and>
    \<not> prefix ''0x'' (ds @ rest) \<and> \<not> prefix ''0X'' (ds @ rest) \<longrightarrow>
      parseInt (ds @ rest) = Some (int (digits_value 10 ds)) \<and>
      (req_method req = GET \<or> req_method req = PUT \<or> req_method req = DELETE \<longrightarrow>
        dispatch cv now (req\<lparr>path := [''books'', ds @ rest]\<rparr>) books =
          dispatch cv now (req\<lparr>path := [''books'', ds]\<rparr>) books)) \<and>
   ((p = ''0x'' \<or> p = ''0X'') \<and> (\<forall>c\<in>set hs. radix_digit 16 c) \<and>
    (rest' = [] \<or> \<not> radix_digit 16 (hd rest')) \<longrightarrow>
      parseInt (p @ hs @ rest') =
        (if hs = [] then None else Some (int (digits_value 16 hs)))) \<and>
   map digit_val ''0123456789abcdefABCDEF'' =
     map Some [0, 1, 2, 3, 4, 5, 6, 7, 8, 9, 10, 11, 12, 13, 14, 15, 10, 11, 12, 13, 14, 15] \<and>
   digits_value r [] = 0 \<and>
   digits_value r (z @ [x]) =
     digits_value r z * r + (case digit_val x of None \<Rightarrow> 0 | Some d \<Rightarrow> d) \<and>
   (parseInt seg = Some n \<and> i < length books \<and> book_id (books ! i) = n \<and>
    (\<forall>j<i. book_id (books ! j) \<noteq> n) \<longrightarrow>
      dispatch cv now (req\<lparr>req_method := GET, path := [''books'', seg]\<rparr>) books =
        (Json \<lparr>status = 200, success = True, data = OneBook (books ! i), message = None\<rparr>,
         books) \<and>
      dispatch cv now (req\<lparr>req_method := DELETE, path := [''books'', seg]\<rparr>) books =
        (Json \<lparr>status = 200, success = True, data = NoData,
               message = Some ''Book deleted successfully''\<rparr>,
         take i books @ drop (Suc i) books) \<and>
      fst (dispatch cv now (req\<lparr>req_method := PUT, path := [''books'', seg]\<rparr>) books) \<noteq>
        Json \<lparr>status = 404, success = False, data = NoData,
              message = Some ''Book not found''\<rparr>) \<and>
   (parseInt seg = None \<and> seg \<noteq> [] \<and>
    (req_method req = GET \<or> req_method req = PUT \<or> req_method req = DELETE) \<longrightarrow>
      dispatch cv now (req\<lparr>path := [''books'', seg]\<rparr>) books =
        (Json \<lparr>status = 404, success = False, data = NoData, message = Some ''Book not found''\<rparr>,
         books)) \<and>
   (radix_digit 10 c \<and> parseInt (c # s) = None \<longrightarrow>
      prefix ''0x'' (c # s) \<or> prefix ''0X'' (c # s))"
proof -
  have A: "parseInt (ds @ rest) = Some (int (digits_value 10 ds)) \<and>
      (req_method req = GET \<or> req_method req = PUT \<or> req_method req = DELETE \<longrightarrow>
        dispatch cv now (req\<lparr>path := [''books'', ds @ rest]\<rparr>) books =
          dispatch cv now (req\<lparr>path := [''books'', ds]\<rparr>) books)"
    if a: "ds \<noteq> [] \<and> (\<forall>c\<in>set ds. radix_digit 10 c) \<and>
      (rest = [] \<or> \<not> radix_digit 10 (hd rest)) \<and>
      \<not> prefix ''0x'' (ds @ rest) \<and> \<not> prefix ''0X'' (ds @ rest)"
  proof (intro conjI impI)
    from a have p: "parseInt (ds @ rest) = Some (int (digits_value 10 ds))"
      by (intro parseInt_decimal_prefix) simp_all
    from a have q: "parseInt ds = Some (int (digits_value 10 ds))"
      by (intro parseInt_digits) simp_all
    show "parseInt (ds @ rest) = Some (int (digits_value 10 ds))" by (rule p)
    from a have ne: "ds @ rest \<noteq> []" "ds \<noteq> []" by simp_all
    let ?r = "req\<lparr>path := [''books'', ds @ rest]\<rparr>" and ?r' = "req\<lparr>path := [''books'', ds]\<rparr>"
    have pid: "parse_id (?r\<lparr>params_id := Some (ds @ rest)\<rparr>) =
        parse_id (?r'\<lparr>params_id := Some ds\<rparr>)"
      by (simp add: parse_id_def p q)
    assume "req_method req = GET \<or> req_method req = PUT \<or> req_method req = DELETE"
    then consider "req_method req = GET" | "req_method req = PUT" | "req_method req = DELETE"
      by blast
    then show "dispatch cv now ?r books = dispatch cv now ?r' books"
    proof cases
      case 1
      then have "dispatch cv now ?r books =
          get_book (?r\<lparr>params_id := Some (ds @ rest)\<rparr>) books"
        using ne by (simp add: dispatch_get)
      also have "\<dots> = get_book (?r'\<lparr>params_id := Some ds\<rparr>) books"
        using pid by (rule get_book_parse)
      also have "\<dots> = dispatch cv now ?r' books"
        using 1 ne by (simp add: dispatch_get)
      finally show ?thesis .
    next
      case 2
      then have "dispatch cv now ?r books =
          put_book cv (?r\<lparr>params_id := Some (ds @ rest)\<rparr>) books"
        using ne by (simp add: dispatch_put)
      also have "\<dots> = put_book cv (?r'\<lparr>params_id := Some ds\<rparr>) books"
        using pid by (rule put_book_parse) simp_all
      also have "\<dots> = dispatch cv now ?r' books"
        using 2 ne by (simp add: dispatch_put)
      finally show ?thesis .
    next
      case 3
      then have "dispatch cv now ?r books =
          delete_book (?r\<lparr>params_id := Some (ds @ rest)\<rparr>) books"
        using ne by (simp add: dispatch_delete)
      also have "\<dots> = delete_book (?r'\<lparr>params_id := Some ds\<rparr>) books"
        using pid by (rule delete_book_parse)
      also have "\<dots> = dispatch cv now ?r' books"
        using 3 ne by (simp add: dispatch_delete)
      finally show ?thesis .
    qed
  qed
  have B: "parseInt (p @ hs @ rest') =
        (if hs = [] then None else Some (int (digits_value 16 hs)))"
    if "(p = ''0x'' \<or> p = ''0X'') \<and> (\<forall>c\<in>set hs. radix_digit 16 c) \<and>
      (rest' = [] \<or> \<not> radix_digit 16 (hd rest'))"
    using that by (intro parseInt_hex_prefix) simp_all
  have T: "map digit_val ''0123456789abcdefABCDEF'' =
     map Some [0, 1, 2, 3, 4, 5, 6, 7, 8, 9, 10, 11, 12, 13, 14, 15, 10, 11, 12, 13, 14, 15]"
    by (simp add: digit_val_def)
  have V: "digits_value r [] = 0"
    "digits_value r (z @ [x]) =
       digits_value r z * r + (case digit_val x of None \<Rightarrow> 0 | Some d \<Rightarrow> d)"
    by (simp_all add: digits_value_def)
  have D: "dispatch cv now (req\<lparr>req_method := GET, path := [''books'', seg]\<rparr>) books =
        (Json \<lparr>status = 200, success = True, data = OneBook (books ! i), message = None\<rparr>,
         books) \<and>
      dispatch cv now (req\<lparr>req_method := DELETE, path := [''books'', seg]\<rparr>) books =
        (Json \<lparr>status = 200, success = True, data = NoData,
               message = Some ''Book deleted successfully''\<rparr>,
         take i books @ drop (Suc i) books) \<and>
      fst (dispatch cv now (req\<lparr>req_method := PUT, path := [''books'', seg]\<rparr>) books) \<noteq>
        Json \<lparr>status = 404, success = False, data = NoData,
              message = Some ''Book not found''\<rparr>"
    if a: "parseInt seg = Some n \<and> i < length books \<and> book_id (books ! i) = n \<and>
      (\<forall>j<i. book_id (books ! j) \<noteq> n)"
  proof (intro conjI)
    from a have seg: "seg \<noteq> []" by (auto simp: parseInt_Nil)
    have idx: "findIndex (\<lambda>b. strict_eq_id (book_id b) (Some n)) books = Some i"
      using a by (intro findIndex_first) (auto simp: strict_eq_id_def)
    show "dispatch cv now (req\<lparr>req_method := GET, path := [''books'', seg]\<rparr>) books =
        (Json \<lparr>status = 200, success = True, data = OneBook (books ! i), message = None\<rparr>,
         books)"
      using a seg by (simp add: dispatch_get get_book_found [where seg = seg and n = n])
    show "dispatch cv now (req\<lparr>req_method := DELETE, path := [''books'', seg]\<rparr>) books =
        (Json \<lparr>status = 200, success = True, data = NoData,
               message = Some ''Book deleted successfully''\<rparr>,
         take i books @ drop (Suc i) books)"
      using a seg idx
      by (simp add: dispatch_delete delete_book_at parse_id_def splice1_def)
    show "fst (dispatch cv now (req\<lparr>req_method := PUT, path := [''books'', seg]\<rparr>) books) \<noteq>
        Json \<lparr>status = 404, success = False, data = NoData,
              message = Some ''Book not found''\<rparr>"
      using a seg
        put_book_found_not_404 [where seg = seg and n = n and i = i and books = books
          and req = "req\<lparr>req_method := PUT, path := [''books'', seg], params_id := Some seg\<rparr>"
          and cv = cv]
      by (simp add: dispatch_put not_found_def)
  qed
  have E: "dispatch cv now (req\<lparr>path := [''books'', seg]\<rparr>) books =
        (Json \<lparr>status = 404, success = False, data = NoData, message = Some ''Book not found''\<rparr>,
         books)"
    if a: "parseInt seg = None \<and> seg \<noteq> [] \<and>
      (req_method req = GET \<or> req_method req = PUT \<or> req_method req = DELETE)"
  proof -
    let ?r = "req\<lparr>path := [''books'', seg]\<rparr>"
    have miss: "\<forall>b\<in>set books. parse_id (?r\<lparr>params_id := Some seg\<rparr>) \<noteq> Some (book_id b)"
      using a by (simp add: parse_id_def)
    from a consider "req_method req = GET" | "req_method req = PUT" | "req_method req = DELETE"
      by blast
    then show ?thesis
    proof cases
      case 1
      with a miss show ?thesis
        by (simp add: dispatch_get get_book_missing not_found_def)
    next
      case 2
      with a miss show ?thesis
        by (simp add: dispatch_put put_book_missing not_found_def)
    next
      case 3
      with a miss show ?thesis
        by (simp add: dispatch_delete delete_book_missing not_found_def)
    qed
  qed
  have F: "prefix ''0x'' (c # s) \<or> prefix ''0X'' (c # s)"
    if "radix_digit 10 c \<and> parseInt (c # s) = None"
    using that parseInt_leading_digit [of c s] by blast
  from A B T V D E F show ?thesis
    by (intro conjI impI) blast+
qed

theorem C9_amended_witness:
  "parseInt (''12'' @ ''abc'') = Some 12 \<and>
   parseInt (''0x'' @ ''1A'' @ ''z'') = Some 26 \<and>
   parseInt (''0X'' @ ''ff'' @ []) = Some 255 \<and>
   parseInt (''0x'' @ [] @ ''z'') = None \<and>
   dispatch (\<lambda>v. NaN) 0 (blank_request\<lparr>req_method := GET, path := [''books'', ''2'' @ ''abc'']\<rparr>)
     books_init =
     (Json \<lparr>status = 200, success = True, data = OneBook (books_init ! 1), message = None\<rparr>,
      books_init) \<and>
   dispatch (\<lambda>v. NaN) 0
     (blank_request\<lparr>req_method := DELETE, path := [''books'', ''0x'' @ ''3'' @ []]\<rparr>)
     books_init =
     (Json \<lparr>status = 200, success = True, data = NoData,
            message = Some ''Book deleted successfully''\<rparr>,
      take 2 books_init @ drop (Suc 2) books_init) \<and>
   fst (dispatch (\<lambda>v. NaN) 0
     (blank_request\<lparr>req_method := PUT, path := [''books'', ''2'' @ ''abc'']\<rparr>) books_init) \<noteq>
     Json \<lparr>status = 404, success = False, data = NoData, message = Some ''Book not found''\<rparr> \<and>
   dispatch (\<lambda>v. NaN) 0 (blank_request\<lparr>req_method := DELETE, path := [''books'', ''abc'']\<rparr>)
     books_init =
     (Json \<lparr>status = 404, success = False, data = NoData, message = Some ''Book not found''\<rparr>,
      books_init) \<and>
   prefix ''0x'' ''0xZ''"
proof -
  let ?del = "blank_request\<lparr>req_method := DELETE\<rparr>"
  have d: "radix_digit 10 (CHR ''1'')" "radix_digit 10 (CHR ''2'')" "radix_digit 10 (CHR ''0'')"
    "\<not> radix_digit 10 (CHR ''a'')" "radix_digit 16 (CHR ''1'')" "radix_digit 16 (CHR ''A'')"
    "radix_digit 16 (CHR ''f'')" "radix_digit 16 (CHR ''3'')" "\<not> radix_digit 16 (CHR ''z'')"
    by (simp_all add: radix_digit_def digit_val_def)
  have v: "int (digits_value 10 ''12'') = 12" "int (digits_value 10 ''2'') = 2"
    "int (digits_value 16 ''1A'') = 26" "int (digits_value 16 ''ff'') = 255"
    "int (digits_value 16 ''3'') = 3"
    by (simp_all add: digits_value_def digit_val_def)
  have n: "parseInt ''abc'' = None" "parseInt ''0xZ'' = None"
    by (simp_all add: parseInt_def is_ws_def radix_digit_def digit_val_def)
  have m: "req_method ?del = DELETE"
    by (simp add: blank_request_def)
  have h12: "''12'' \<noteq> [] \<and> (\<forall>c\<in>set ''12''. radix_digit 10 c) \<and>
      (''abc'' = [] \<or> \<not> radix_digit 10 (hd ''abc'')) \<and>
      \<not> prefix ''0x'' (''12'' @ ''abc'') \<and> \<not> prefix ''0X'' (''12'' @ ''abc'')"
    using d by simp
  have h2: "''2'' \<noteq> [] \<and> (\<forall>c\<in>set ''2''. radix_digit 10 c) \<and>
      (''abc'' = [] \<or> \<not> radix_digit 10 (hd ''abc'')) \<and>
      \<not> prefix ''0x'' (''2'' @ ''abc'') \<and> \<not> prefix ''0X'' (''2'' @ ''abc'')"
    using d by simp
  have hx1: "(''0x'' = ''0x'' \<or> ''0x'' = ''0X'') \<and> (\<forall>c\<in>set ''1A''. radix_digit 16 c) \<and>
      (''z'' = [] \<or> \<not> radix_digit 16 (hd ''z''))"
    using d by simp
  have hx2: "(''0X'' = ''0x'' \<or> ''0X'' = ''0X'') \<and> (\<forall>c\<in>set ''ff''. radix_digit 16 c) \<and>
      ([] = [] \<or> \<not> radix_digit 16 (hd []))"
    using d by simp
  have hx3: "(''0x'' = ''0x'' \<or> ''0x'' = ''0X'') \<and> (\<forall>c\<in>set []. radix_digit 16 c) \<and>
      (''z'' = [] \<or> \<not> radix_digit 16 (hd ''z''))"
    using d by simp
  have hx4: "(''0x'' = ''0x'' \<or> ''0x'' = ''0X'') \<and> (\<forall>c\<in>set ''3''. radix_digit 16 c) \<and>
      ([] = [] \<or> \<not> radix_digit 16 (hd []))"
    using d by simp
  have c1: "parseInt (''12'' @ ''abc'') = Some (int (digits_value 10 ''12''))"
    using C9_amended [where ds = "''12''" and rest = "''abc''"] h12 by blast
  have c2: "parseInt (''2'' @ ''abc'') = Some (int (digits_value 10 ''2''))"
    using C9_amended [where ds = "''2''" and rest = "''abc''"] h2 by blast
  have c3: "parseInt (''0x'' @ ''1A'' @ ''z'') =
      (if ''1A'' = [] then None else Some (int (digits_value 16 ''1A'')))"
    using C9_amended [where p = "''0x''" and hs = "''1A''" and rest' = "''z''"] hx1 by blast
  have c4: "parseInt (''0X'' @ ''ff'' @ []) =
      (if ''ff'' = [] then None else Some (int (digits_value 16 ''ff'')))"
    using C9_amended [where p = "''0X''" and hs = "''ff''" and rest' = "[]"] hx2 by blast
  have c5: "parseInt (''0x'' @ [] @ ''z'') =
      (if ([]::string) = [] then None else Some (int (digits_value 16 [])))"
    using C9_amended [where p = "''0x''" and hs = "[]" and rest' = "''z''"] hx3 by blast
  have c6: "parseInt (''0x'' @ ''3'' @ []) =
      (if ''3'' = [] then None else Some (int (digits_value 16 ''3'')))"
    using C9_amended [where p = "''0x''" and hs = "''3''" and rest' = "[]"] hx4 by blast
  have s2: "parseInt (''2'' @ ''abc'') = Some 2 \<and> 1 < length books_init \<and>
      book_id (books_init ! 1) = 2 \<and> (\<forall>j<1. book_id (books_init ! j) \<noteq> 2)"
    using c2 v by (simp add: books_init_def)
  have s3: "parseInt (''0x'' @ ''3'' @ []) = Some 3 \<and> 2 < length books_init \<and>
      book_id (books_init ! 2) = 3 \<and> (\<forall>j<2. book_id (books_init ! j) \<noteq> 3)"
    using c6 v by (simp add: books_init_def less_Suc_eq numeral_2_eq_2)
  have D2: "dispatch (\<lambda>v. NaN) 0
        (blank_request\<lparr>req_method := GET, path := [''books'', ''2'' @ ''abc'']\<rparr>) books_init =
        (Json \<lparr>status = 200, success = True, data = OneBook (books_init ! 1), message = None\<rparr>,
         books_init) \<and>
      dispatch (\<lambda>v. NaN) 0
        (blank_request\<lparr>req_method := DELETE, path := [''books'', ''2'' @ ''abc'']\<rparr>) books_init =
        (Json \<lparr>status = 200, success = True, data = NoData,
               message = Some ''Book deleted successfully''\<rparr>,
         take 1 books_init @ drop (Suc 1) books_init) \<and>
      fst (dispatch (\<lambda>v. NaN) 0
        (blank_request\<lparr>req_method := PUT, path := [''books'', ''2'' @ ''abc'']\<rparr>) books_init) \<noteq>
        Json \<lparr>status = 404, success = False, data = NoData,
              message = Some ''Book not found''\<rparr>"
    using C9_amended [where seg = "''2'' @ ''abc''" and n = 2 and i = 1 and books = books_init
        and req = blank_request and cv = "\<lambda>v. NaN" and now = 0,
        THEN conjunct2, THEN conjunct2, THEN conjunct2, THEN conjunct2, THEN conjunct2,
        THEN conjunct1] s2
    by (rule mp)
  have D3: "dispatch (\<lambda>v. NaN) 0
        (blank_request\<lparr>req_method := GET, path := [''books'', ''0x'' @ ''3'' @ []]\<rparr>)
        books_init =
        (Json \<lparr>status = 200, success = True, data = OneBook (books_init ! 2), message = None\<rparr>,
         books_init) \<and>
      dispatch (\<lambda>v. NaN) 0
        (blank_request\<lparr>req_method := DELETE, path := [''books'', ''0x'' @ ''3'' @ []]\<rparr>)
        books_init =
        (Json \<lparr>status = 200, success = True, data = NoData,
               message = Some ''Book deleted successfully''\<rparr>,
         take 2 books_init @ drop (Suc 2) books_init) \<and>
      fst (dispatch (\<lambda>v. NaN) 0
        (blank_request\<lparr>req_method := PUT, path := [''books'', ''0x'' @ ''3'' @ []]\<rparr>)
        books_init) \<noteq>
        Json \<lparr>status = 404, success = False, data = NoData,
              message = Some ''Book not found''\<rparr>"
    using C9_amended [where seg = "''0x'' @ ''3'' @ []" and n = 3 and i = 2
        and books = books_init and req = blank_request and cv = "\<lambda>v. NaN" and now = 0,
        THEN conjunct2, THEN conjunct2, THEN conjunct2, THEN conjunct2, THEN conjunct2,
        THEN conjunct1] s3
    by (rule mp)
  note g1 = D2 [THEN conjunct1]
  note g2 = D3 [THEN conjunct2, THEN conjunct1]
  note g3 = D2 [THEN conjunct2, THEN conjunct2]
  have h3: "parseInt ''abc'' = None \<and> ''abc'' \<noteq> [] \<and>
      (req_method ?del = GET \<or> req_method ?del = PUT \<or> req_method ?del = DELETE)"
    using n m by simp
  have g4: "dispatch (\<lambda>v. NaN) 0 (?del\<lparr>path := [''books'', ''abc'']\<rparr>) books_init =
      (Json \<lparr>status = 404, success = False, data = NoData, message = Some ''Book not found''\<rparr>,
       books_init)"
    using C9_amended [where seg = "''abc''" and req = ?del and books = books_init
        and cv = "\<lambda>v. NaN" and now = 0,
        THEN conjunct2, THEN conjunct2, THEN conjunct2, THEN conjunct2, THEN conjunct2,
        THEN conjunct2, THEN conjunct1] h3
    by (rule mp)
  have c4': "prefix ''0x'' ''0xZ''"
    by simp
  from c1 v have c1': "parseInt (''12'' @ ''abc'') = Some 12"
    by (simp only:)
  from c3 v have c3': "parseInt (''0x'' @ ''1A'' @ ''z'') = Some 26"
    by (simp only:) simp
  from c4 v have c4'': "parseInt (''0X'' @ ''ff'' @ []) = Some 255"
    by (simp only:) simp
  from c5 have c5': "parseInt (''0x'' @ [] @ ''z'') = None"
    by (simp only:) simp
  from c1' c3' c4'' c5' g1 g2 g3 g4 c4' show ?thesis
    by (simp only:) simp
qed

section \<open>The completed field\<close>

lemma completedBooks_only_true: "b \<in> set (completedBooks books) \<Longrightarrow> completed b = JBool True"
  by (simp add: completedBooks_def)

lemma reachable_string_completed:
  "reachable (books_init[0 := (books_init ! 0)\<lparr>completed := JStr ''yes''\<rparr>])"
proof -
  let ?req = "blank_request\<lparr>req_method := PUT, path := [''books'', ''1''],
                body_completed := JStr ''yes''\<rparr>"
  have p: "parseInt ''1'' = Some 1"
    by (simp add: parseInt_def is_ws_def radix_digit_def digit_val_def digits_value_def)
  have "snd (dispatch (\<lambda>v. NaN) 0 ?req books_init) =
      books_init[0 := (books_init ! 0)\<lparr>completed := JStr ''yes''\<rparr>]"
    by (simp add: blank_request_def dispatch_put put_book_def parse_id_def p books_init_def
        strict_eq_id_def Let_def)
  with reachable.step [OF reachable.init, of "\<lambda>v. NaN" 0 ?req] show ?thesis
    by simp
qed

text \<open>
  C10. Update does not check the type of \<open>completed\<close>: in an update that is carried out
  (the year is absent or falsy, or passes the year check), any payload value other than
  undefined is stored as it is in the book's \<open>completed\<close> field. So a registry the
  program can hold may contain a book whose \<open>completed\<close> is a truthy value that is not a
  boolean. The completed-list handler, which compares with \<^verbatim>\<open>=== true\<close>, returns exactly
  the books whose \<open>completed\<close> is the boolean true and so leaves such a book out.
\<close>

theorem C10_completed_untyped:
  "(req_method req = PUT \<and> path req = [''books'', seg] \<and> parseInt seg = Some n \<and>
    i < length books \<and> book_id (books ! i) = n \<and> (\<forall>j<i. book_id (books ! j) \<noteq> n) \<and>
    (\<not> truthy (body_year req) \<or> js_le cv (body_year req) 1900 = Some False) \<and>
    body_completed req \<noteq> JUndefined \<longrightarrow>
      completed (snd (dispatch cv now req books) ! i) = body_completed req) \<and>
   (\<exists>bs. reachable bs \<and> (\<exists>b\<in>set bs. completed b = JStr ''yes'' \<and> truthy (completed b))) \<and>
   get_completed req' books =
     (Json \<lparr>status = 200, success = True,
            data = ManyBooks (filter (\<lambda>x. completed x = JBool True) books), message = None\<rparr>,
      books) \<and>
   (truthy (completed b) \<and> completed b \<noteq> JBool True \<longrightarrow>
      b \<notin> set (filter (\<lambda>x. completed x = JBool True) books))"
proof (intro conjI impI)
  assume a: "req_method req = PUT \<and> path req = [''books'', seg] \<and> parseInt seg = Some n \<and>
    i < length books \<and> book_id (books ! i) = n \<and> (\<forall>j<i. book_id (books ! j) \<noteq> n) \<and>
    (\<not> truthy (body_year req) \<or> js_le cv (body_year req) 1900 = Some False) \<and>
    body_completed req \<noteq> JUndefined"
  then have seg: "seg \<noteq> []" by (auto simp: parseInt_Nil)
  have d: "dispatch cv now req books = put_book cv (req\<lparr>params_id := Some seg\<rparr>) books"
    using a seg by (simp add: dispatch_put)
  have chk: "(if truthy (body_year (req\<lparr>params_id := Some seg\<rparr>))
              then js_le cv (body_year (req\<lparr>params_id := Some seg\<rparr>)) 1900
              else Some False) = Some False"
    using a by auto
  have f: "put_book cv (req\<lparr>params_id := Some seg\<rparr>) books =
          (Json \<lparr>status = 200, success = True,
                  data = OneBook
                    \<lparr>book_id = book_id (books ! i),
                     title = (if truthy (body_title (req\<lparr>params_id := Some seg\<rparr>)) then body_title (req\<lparr>params_id := Some seg\<rparr>) else title (books ! i)),
                     author = (if truthy (body_author (req\<lparr>params_id := Some seg\<rparr>)) then body_author (req\<lparr>params_id := Some seg\<rparr>)
                               else author (books ! i)),
                     year = (if truthy (body_year (req\<lparr>params_id := Some seg\<rparr>)) then body_year (req\<lparr>params_id := Some seg\<rparr>) else year (books ! i)),
                     completed = (if body_completed (req\<lparr>params_id := Some seg\<rparr>) \<noteq> JUndefined then body_completed (req\<lparr>params_id := Some seg\<rparr>)
                                  else completed (books ! i)),
                     createdAt = createdAt (books ! i)\<rparr>,
                  message = Some ''Book updated successfully''\<rparr>,
            books[i :=
                    \<lparr>book_id = book_id (books ! i),
                     title = (if truthy (body_title (req\<lparr>params_id := Some seg\<rparr>)) then body_title (req\<lparr>params_id := Some seg\<rparr>) else title (books ! i)),
                     author = (if truthy (body_author (req\<lparr>params_id := Some seg\<rparr>)) then body_author (req\<lparr>params_id := Some seg\<rparr>)
                               else author (books ! i)),
                     year = (if truthy (body_year (req\<lparr>params_id := Some seg\<rparr>)) then body_year (req\<lparr>params_id := Some seg\<rparr>) else year (books ! i)),
                     completed = (if body_completed (req\<lparr>params_id := Some seg\<rparr>) \<noteq> JUndefined then body_completed (req\<lparr>params_id := Some seg\<rparr>)
                                  else completed (books ! i)),
                     createdAt = createdAt (books ! i)\<rparr>])"
    using a put_book_found [where req = "req\<lparr>params_id := Some seg\<rparr>" and seg = seg and n = n
        and i = i and books = books and cv = cv]
    by (simp only: chk) simp
  show "completed (snd (dispatch cv now req books) ! i) = body_completed req"
    unfolding d f using a by auto
next
  have "(books_init ! 0)\<lparr>completed := JStr ''yes''\<rparr> \<in>
      set (books_init[0 := (books_init ! 0)\<lparr>completed := JStr ''yes''\<rparr>])"
    by (simp add: books_init_def)
  with reachable_string_completed
  show "\<exists>bs. reachable bs \<and> (\<exists>b\<in>set bs. completed b = JStr ''yes'' \<and> truthy (completed b))"
    by (intro exI [of _ "books_init[0 := (books_init ! 0)\<lparr>completed := JStr ''yes''\<rparr>]"] conjI
        bexI [of _ "(books_init ! 0)\<lparr>completed := JStr ''yes''\<rparr>"]) simp_all
next
  show "get_completed req' books =
     (Json \<lparr>status = 200, success = True,
            data = ManyBooks (filter (\<lambda>x. completed x = JBool True) books), message = None\<rparr>,
      books)"
    by (rule get_completed_result)
next
  assume "truthy (completed b) \<and> completed b \<noteq> JBool True"
  then show "b \<notin> set (filter (\<lambda>x. completed x = JBool True) books)"
    by simp
qed

theorem C10_completed_untyped_witness:
  "completed (snd (dispatch (\<lambda>v. NaN) 0
       (blank_request\<lparr>req_method := PUT, path := [''books'', ''1''],
          body_completed := JNum (Fin 1)\<rparr>) books_init) ! 0) = JNum (Fin 1) \<and>
   get_completed blank_request (books_init[0 := (books_init ! 0)\<lparr>completed := JStr ''yes''\<rparr>]) =
     (Json \<lparr>status = 200, success = True, data = ManyBooks [books_init ! 1, books_init ! 2],
            message = None\<rparr>,
      books_init[0 := (books_init ! 0)\<lparr>completed := JStr ''yes''\<rparr>]) \<and>
   (books_init ! 0)\<lparr>completed := JStr ''yes''\<rparr> \<notin> set [books_init ! 1, books_init ! 2]"
proof -
  let ?req = "blank_request\<lparr>req_method := PUT, path := [''books'', ''1''],
                body_completed := JNum (Fin 1)\<rparr>"
  let ?b = "(books_init ! 0)\<lparr>completed := JStr ''yes''\<rparr>"
  let ?bs = "books_init[0 := ?b]"
  have p: "parseInt ''1'' = Some 1"
    by (simp add: parseInt_def is_ws_def radix_digit_def digit_val_def digits_value_def)
  have h1: "req_method ?req = PUT \<and> path ?req = [''books'', ''1''] \<and> parseInt ''1'' = Some 1 \<and>
    0 < length books_init \<and> book_id (books_init ! 0) = 1 \<and>
    (\<forall>j<0::nat. book_id (books_init ! j) \<noteq> 1) \<and>
    (\<not> truthy (body_year ?req) \<or> js_le (\<lambda>v. NaN) (body_year ?req) 1900 = Some False) \<and>
    body_completed ?req \<noteq> JUndefined"
    by (simp add: p blank_request_def books_init_def)
  have h2: "truthy (completed ?b) \<and> completed ?b \<noteq> JBool True"
    by (simp add: books_init_def)
  have fl: "filter (\<lambda>x. completed x = JBool True) ?bs = [books_init ! 1, books_init ! 2]"
    by (simp add: books_init_def)
  have c1: "completed (snd (dispatch (\<lambda>v. NaN) 0 ?req books_init) ! 0) = body_completed ?req"
    using C10_completed_untyped [where req = ?req and seg = "''1''" and n = 1 and i = 0
        and books = books_init and cv = "\<lambda>v. NaN" and now = 0] h1 by blast
  have c2: "get_completed blank_request ?bs =
       (Json \<lparr>status = 200, success = True,
              data = ManyBooks (filter (\<lambda>x. completed x = JBool True) ?bs), message = None\<rparr>,
        ?bs) \<and>
      ?b \<notin> set (filter (\<lambda>x. completed x = JBool True) ?bs)"
    using C10_completed_untyped [where b = ?b and books = ?bs and req' = blank_request] h2
    by blast
  have e: "body_completed ?req = JNum (Fin 1)"
    by (simp add: blank_request_def)
  from c1 c2 show ?thesis
    unfolding fl e by blast
qed

end
